theory Spec2Isabelle
  imports Complex_Main
begin

section \<open>Numbers and library functions\<close>

text \<open>
  The importer computes with Python floats. They are modelled by the real numbers:
  \<open>math.sin\<close>, \<open>math.cos\<close>, \<open>math.tan\<close> and \<open>math.sqrt\<close> are the real functions of
  the same name, and rounding, infinities and NaN are outside the model. Every statement
  below about angles and lengths is therefore a statement about exact arithmetic.

  \<open>math.atan2 y x\<close> is the angle of the point \<open>(x, y)\<close>, in the interval from \<open>-pi\<close>
  (excluded) to \<open>pi\<close> (included), with \<open>atan2 0 0 = 0\<close>. Python takes it from the C
  library; it is written out here from that definition.
\<close>

definition atan2 :: "real \<Rightarrow> real \<Rightarrow> real" where
  "atan2 y x =
     (if 0 < x then arctan (y / x)
      else if x < 0 then (if 0 \<le> y then arctan (y / x) + pi else arctan (y / x) - pi)
      else if 0 < y then pi / 2
      else if y < 0 then - (pi / 2)
      else 0)"

section \<open>Matrix3x3 and the rotation functions\<close>

text \<open>
  \<open>Matrix3x3.__init__\<close> copies the entries \<open>data[i][j]\<close> for \<open>i, j\<close> in \<open>range(3)\<close> into
  the field \<open>data\<close>; a matrix is represented by that field, a list of three rows. Both
  callers (\<open>create_rotation_matrix\<close> and \<open>get_camera_transform\<close>) pass a literal or a
  comprehension with three rows of three entries, so the reads are always in range.
\<close>

definition Matrix3x3 :: "'a list list \<Rightarrow> 'a list list" where
  "Matrix3x3 data = map (\<lambda>i. map (\<lambda>j. data ! i ! j) [0..<3]) [0..<3]"

text \<open>\<open>Matrix3x3.dot_product\<close>: \<open>sum(x * y for x, y in zip(a, b))\<close>.\<close>

definition dot_product :: "real list \<Rightarrow> real list \<Rightarrow> real" where
  "dot_product a b = sum_list (map (\<lambda>(x, y). x * y) (zip a b))"

text \<open>
  \<open>Matrix3x3.dot\<close>: entry \<open>(i, j)\<close> of the result is the dot product of row \<open>i\<close> of
  \<open>self\<close> and column \<open>j\<close> of \<open>other\<close>.
\<close>

definition dot :: "real list list \<Rightarrow> real list list \<Rightarrow> real list list" where
  "dot self other =
     Matrix3x3 (map (\<lambda>i. map (\<lambda>j.
        dot_product (map (\<lambda>k. self ! i ! k) [0..<3]) (map (\<lambda>k. other ! k ! j) [0..<3]))
        [0..<3]) [0..<3])"

text \<open>
  \<open>create_rotation_matrix\<close>, on the path without numpy:
  \<open>Matrix3x3(rot_z).dot(Matrix3x3(rot_y)).dot(Matrix3x3(rot_x))\<close>. The numpy path
  computes the same two products with \<open>ndarray.dot\<close>.
\<close>

definition create_rotation_matrix :: "real \<Rightarrow> real \<Rightarrow> real \<Rightarrow> real list list" where
  "create_rotation_matrix x y z =
     (let rot_x = [[1, 0, 0],
                   [0, cos x, - sin x],
                   [0, sin x, cos x]];
          rot_y = [[cos y, 0, sin y],
                   [0, 1, 0],
                   [- sin y, 0, cos y]];
          rot_z = [[cos z, - sin z, 0],
                   [sin z, cos z, 0],
                   [0, 0, 1]]
      in dot (dot (Matrix3x3 rot_z) (Matrix3x3 rot_y)) (Matrix3x3 rot_x))"

text \<open>
  \<open>rotation_matrix_to_euler\<close>. Its two branches (numpy indexing \<open>matrix[i, j]\<close> and
  list indexing \<open>matrix_data[i][j]\<close>) hold the same formulas; the argument is the matrix
  data, three rows of three numbers. \<open>singular\<close> is the local variable of that name,
  \<open>sy < 1e-6\<close>.
\<close>

definition singular :: "real list list \<Rightarrow> bool" where
  "singular matrix_data =
     (sqrt ((matrix_data ! 0 ! 0)\<^sup>2 + (matrix_data ! 1 ! 0)\<^sup>2) < 1 / 10 ^ 6)"

definition rotation_matrix_to_euler :: "real list list \<Rightarrow> real list" where
  "rotation_matrix_to_euler matrix_data =
     (let sy = sqrt ((matrix_data ! 0 ! 0)\<^sup>2 + (matrix_data ! 1 ! 0)\<^sup>2)
      in if \<not> singular matrix_data
         then [atan2 (matrix_data ! 2 ! 1) (matrix_data ! 2 ! 2),
               atan2 (- (matrix_data ! 2 ! 0)) sy,
               atan2 (matrix_data ! 1 ! 0) (matrix_data ! 0 ! 0)]
         else [atan2 (- (matrix_data ! 1 ! 2)) (matrix_data ! 1 ! 1),
               atan2 (- (matrix_data ! 2 ! 0)) sy,
               0])"

subsection \<open>The specification's rotation matrices\<close>

text \<open>
  The standard right-handed elementary rotations and the textbook matrix product, written
  from the specification's words, to compare \<open>create_rotation_matrix\<close> with.
\<close>

definition Rx_standard :: "real \<Rightarrow> real list list" where
  "Rx_standard a = [[1, 0, 0], [0, cos a, - sin a], [0, sin a, cos a]]"

definition Ry_standard :: "real \<Rightarrow> real list list" where
  "Ry_standard a = [[cos a, 0, sin a], [0, 1, 0], [- sin a, 0, cos a]]"

definition Rz_standard :: "real \<Rightarrow> real list list" where
  "Rz_standard a = [[cos a, - sin a, 0], [sin a, cos a, 0], [0, 0, 1]]"

definition matrix_product :: "real list list \<Rightarrow> real list list \<Rightarrow> real list list" where
  "matrix_product A B =
     map (\<lambda>i. map (\<lambda>j. \<Sum>k\<in>{0..<3}. A ! i ! k * B ! k ! j) [0..<3]) [0..<3]"

definition column :: "real list list \<Rightarrow> nat \<Rightarrow> real list" where
  "column A j = map (\<lambda>row. row ! j) A"

text \<open>
  The round trip of the specification at one angle triple: away from gimbal lock the
  returned angles are within \<open>1e-6\<close> of the given ones; at gimbal lock the matrix
  recomposed from the returned angles is the original one. Gimbal lock is taken to be
  the singular branch of the decomposition.
\<close>

definition roundtrip_within_tolerance :: "real \<Rightarrow> real \<Rightarrow> real \<Rightarrow> bool" where
  "roundtrip_within_tolerance x y z =
     (let R = create_rotation_matrix x y z;
          e = rotation_matrix_to_euler R
      in if singular R
         then create_rotation_matrix (e ! 0) (e ! 1) (e ! 2) = R
         else \<bar>e ! 0 - x\<bar> \<le> 1 / 10 ^ 6 \<and> \<bar>e ! 1 - y\<bar> \<le> 1 / 10 ^ 6 \<and> \<bar>e ! 2 - z\<bar> \<le> 1 / 10 ^ 6)"

text \<open>
  The matrix recomposed from the angles that the decomposition returns for the matrix of
  an angle triple, and the entrywise comparison of two matrices up to a tolerance.
\<close>

definition recomposed :: "real \<Rightarrow> real \<Rightarrow> real \<Rightarrow> real list list" where
  "recomposed x y z =
     create_rotation_matrix
       (rotation_matrix_to_euler (create_rotation_matrix x y z) ! 0)
       (rotation_matrix_to_euler (create_rotation_matrix x y z) ! 1)
       (rotation_matrix_to_euler (create_rotation_matrix x y z) ! 2)"

definition matrices_within :: "real \<Rightarrow> real list list \<Rightarrow> real list list \<Rightarrow> bool" where
  "matrices_within tol A B = list_all2 (list_all2 (\<lambda>a b. \<bar>a - b\<bar> \<le> tol)) A B"

section \<open>Python values and exceptions\<close>

text \<open>
  A byte string is a list of characters (a \<open>char\<close> is one byte), so that \<open>b'fspy'\<close> is
  the literal \<open>''fspy''\<close>.
\<close>

type_synonym bytes = "char list"

text \<open>The exceptions the modelled code can raise; \<open>StructError\<close> is \<open>struct.error\<close>.\<close>

datatype exn =
    OSError
  | ValueError string
  | StructError
  | MemoryError
  | UnicodeDecodeError
  | JSONDecodeError
  | AttributeError
  | TypeError
  | IndexError
  | KeyError
  | ZeroDivisionError

text \<open>
  What \<open>json.loads\<close> returns: \<open>None\<close>, a \<open>bool\<close>, a number, a \<open>str\<close>, a \<open>list\<close> or a
  \<open>dict\<close> with string keys. Numbers are reals (see above); a \<open>dict\<close> is an association
  list read with \<open>map_of\<close>. \<open>JNull\<close> is Python's \<open>None\<close>.
\<close>

datatype json =
    JNull
  | JBool bool
  | JNum real
  | JStr string
  | JArr "json list"
  | JObj "(string \<times> json) list"

text \<open>A computation that returns a value or raises; \<open>bind_exn\<close> runs the next statement.\<close>

definition bind_exn :: "exn + 'a \<Rightarrow> ('a \<Rightarrow> exn + 'b) \<Rightarrow> exn + 'b" where
  "bind_exn m f = (case m of Inl e \<Rightarrow> Inl e | Inr x \<Rightarrow> f x)"

text \<open>A list display or comprehension: the elements are evaluated left to right.\<close>

fun sequence_exn :: "(exn + 'a) list \<Rightarrow> exn + 'a list" where
  "sequence_exn [] = Inr []"
| "sequence_exn (m # ms) = bind_exn m (\<lambda>x. bind_exn (sequence_exn ms) (\<lambda>xs. Inr (x # xs)))"

text \<open>Truth value of an object, as \<open>not v\<close> and \<open>if v:\<close> test it.\<close>

fun truthy :: "json \<Rightarrow> bool" where
  "truthy JNull = False"
| "truthy (JBool b) = b"
| "truthy (JNum r) = (r \<noteq> 0)"
| "truthy (JStr s) = (s \<noteq> [])"
| "truthy (JArr xs) = (xs \<noteq> [])"
| "truthy (JObj kvs) = (kvs \<noteq> [])"

text \<open>\<open>v.get(k, d)\<close>: only a \<open>dict\<close> has the method.\<close>

fun py_get :: "json \<Rightarrow> string \<Rightarrow> json \<Rightarrow> exn + json" where
  "py_get (JObj kvs) k d = Inr (case map_of kvs k of Some v \<Rightarrow> v | None \<Rightarrow> d)"
| "py_get _ k d = Inl AttributeError"

text \<open>
  \<open>v[i]\<close> for a literal index \<open>i \<ge> 0\<close>: a list and a string are indexed (a string gives
  a one-character string), a \<open>dict\<close> from JSON has no integer key, anything else is not
  subscriptable.
\<close>

fun py_index :: "json \<Rightarrow> nat \<Rightarrow> exn + json" where
  "py_index (JArr xs) i = (if i < length xs then Inr (xs ! i) else Inl IndexError)"
| "py_index (JStr s) i = (if i < length s then Inr (JStr [s ! i]) else Inl IndexError)"
| "py_index (JObj kvs) i = Inl KeyError"
| "py_index _ i = Inl TypeError"

text \<open>
  A value used as a number by arithmetic or by a \<open>math\<close> function (\<open>v ** 2\<close>, \<open>- v\<close>,
  \<open>v / 2\<close>, \<open>math.atan2\<close>, \<open>math.degrees\<close>): numbers and booleans are accepted.
\<close>

fun py_real :: "json \<Rightarrow> exn + real" where
  "py_real (JNum r) = Inr r"
| "py_real (JBool b) = Inr (if b then 1 else 0)"
| "py_real _ = Inl TypeError"

text \<open>
  \<open>float(v)\<close>: as \<open>py_real\<close>, and a string is parsed by Python's number parser, which is
  the parameter \<open>float_of_str\<close> (\<open>None\<close> when the string is no number).
\<close>

fun py_float :: "(string \<Rightarrow> real option) \<Rightarrow> json \<Rightarrow> exn + real" where
  "py_float float_of_str (JNum r) = Inr r"
| "py_float float_of_str (JBool b) = Inr (if b then 1 else 0)"
| "py_float float_of_str (JStr s) =
     (case float_of_str s of
        Some r \<Rightarrow> Inr r
      | None \<Rightarrow> Inl (ValueError ''could not convert string to float''))"
| "py_float float_of_str _ = Inl TypeError"

text \<open>
  A value formatted with \<open>:.3f\<close> in an f-string: the number that is printed. The digits
  are not modelled.
\<close>

fun py_format_f :: "json \<Rightarrow> exn + real" where
  "py_format_f (JNum r) = Inr r"
| "py_format_f (JBool b) = Inr (if b then 1 else 0)"
| "py_format_f (JStr s) = Inl (ValueError ''Unknown format code'')"
| "py_format_f _ = Inl TypeError"

text \<open>Float division \<open>a / b\<close>.\<close>

definition py_div :: "real \<Rightarrow> real \<Rightarrow> exn + real" where
  "py_div a b = (if b = 0 then Inl ZeroDivisionError else Inr (a / b))"

section \<open>Logging\<close>

text \<open>
  \<open>log_message(message, level)\<close> prints the message when \<open>DEBUG_LEVELS\<close> enables the
  level. A run of the modelled code records its calls of \<open>log_message\<close> in order; a
  message is represented by the values its f-string formats, not by the text.
  \<open>set_debug_level\<close> changes the levels \<open>trace\<close> and \<open>debug\<close> only. \<open>print\<close> is taken
  not to fail, and the values the messages format can always be formatted, so a call of
  \<open>log_message\<close> does not raise.
\<close>

datatype level = Trace | Debug | Info | Error

datatype message =
    Opening_file
  | File_ID bytes
  | Version nat
  | State_size nat
  | Image_size nat
  | Raw_state_data bytes
  | Parsed_JSON_data json
  | Image_data_loaded
  | Successfully_parsed string
  | Failed_to_parse exn

definition DEBUG_LEVELS :: "level \<Rightarrow> bool" where
  "DEBUG_LEVELS l = (case l of Trace \<Rightarrow> False | Debug \<Rightarrow> False | Info \<Rightarrow> True | Error \<Rightarrow> True)"

definition set_debug_level :: "bool \<Rightarrow> bool \<Rightarrow> (level \<Rightarrow> bool) \<Rightarrow> (level \<Rightarrow> bool)" where
  "set_debug_level trace debug_flag levels = levels(Trace := trace, Debug := debug_flag)"

definition printed :: "(level \<Rightarrow> bool) \<Rightarrow> (level \<times> message) list \<Rightarrow> (level \<times> message) list" where
  "printed levels calls = filter (\<lambda>c. levels (fst c)) calls"

definition error_calls :: "(level \<times> message) list \<Rightarrow> (level \<times> message) list" where
  "error_calls calls = filter (\<lambda>c. fst c = Error) calls"

section \<open>FSpyParser.parse\<close>

record FSpyParser =
  filepath :: string
  state_data :: json
  image_data :: "bytes option"
  image_path :: "string option"

text \<open>\<open>FSpyParser.__init__\<close>.\<close>

definition FSpyParser_init :: "string \<Rightarrow> FSpyParser" where
  "FSpyParser_init path =
     \<lparr>filepath = path, state_data = JNull, image_data = None, image_path = None\<rparr>"

text \<open>
  A file opened for reading is its content and a position. \<open>f.read(n)\<close> at position
  \<open>pos\<close> returns at most \<open>n\<close> bytes (fewer at the end of the file) and leaves the
  position at \<open>f_tell\<close>. The four reads of the header ask for 4 bytes each and are
  taken to succeed. The two block reads ask for a size that the file itself gives, up to
  \<open>2^32 - 1\<close> bytes, and may raise (a \<open>MemoryError\<close> when the buffer cannot be
  allocated, an \<open>OSError\<close> from the device): the parameter \<open>read_error pos n\<close> of
  \<open>parse\<close> is the exception of the block read of \<open>n\<close> bytes at \<open>pos\<close>, if it raises.
\<close>

definition f_read :: "bytes \<Rightarrow> nat \<Rightarrow> nat \<Rightarrow> bytes" where
  "f_read content pos n = take n (drop pos content)"

definition f_tell :: "bytes \<Rightarrow> nat \<Rightarrow> nat \<Rightarrow> nat" where
  "f_tell content pos n = min (pos + n) (length content)"

text \<open>
  \<open>struct.unpack('<I', b)[0]\<close>: the little-endian unsigned value of exactly four bytes,
  \<open>struct.error\<close> for any other length.
\<close>

fun unpack_I :: "bytes \<Rightarrow> exn + nat" where
  "unpack_I [b0, b1, b2, b3] =
     Inr (of_char b0 + 256 * of_char b1 + 65536 * of_char b2 + 16777216 * of_char b3)"
| "unpack_I _ = Inl StructError"

text \<open>
  What a call of \<open>parse\<close> leaves behind: the value returned, the parser object, the
  position of the file when it is closed (0 when it could not be opened), and the calls
  of \<open>log_message\<close>.
\<close>

record parse_outcome =
  returned :: bool
  self_after :: FSpyParser
  file_pos :: nat
  log_calls :: "(level \<times> message) list"

text \<open>The handler \<open>except Exception as e\<close>: log the exception, return \<open>False\<close>.\<close>

definition parse_failed ::
  "FSpyParser \<Rightarrow> nat \<Rightarrow> (level \<times> message) list \<Rightarrow> exn \<Rightarrow> parse_outcome" where
  "parse_failed self pos calls e =
     \<lparr>returned = False, self_after = self, file_pos = pos,
      log_calls = calls @ [(Error, Failed_to_parse e)]\<rparr>"

text \<open>
  \<open>FSpyParser.parse\<close>. \<open>files\<close> maps a path to the content of the file, \<open>None\<close> when
  \<open>open\<close> fails. \<open>loads_utf8\<close> is \<open>json.loads(b.decode('utf-8'))\<close>, a parameter: it
  returns the parsed value or the exception raised. The \<open>with\<close> statement closes the
  file on every path. \<open>self.state_data\<close> is assigned as soon as the state block has
  loaded; the read of the image block follows in the same \<open>try\<close>, and the handler
  resets nothing.
\<close>

definition parse ::
  "(bytes \<Rightarrow> exn + json) \<Rightarrow> (nat \<Rightarrow> nat \<Rightarrow> exn option) \<Rightarrow> (string \<Rightarrow> bytes option)
     \<Rightarrow> FSpyParser \<Rightarrow> parse_outcome" where
  "parse loads_utf8 read_error files self =
     (let log0 = [(Trace, Opening_file)] in
      case files (filepath self) of
        None \<Rightarrow> parse_failed self 0 log0 OSError
      | Some f \<Rightarrow>
          let file_id = f_read f 0 4;
              p1 = f_tell f 0 4;
              log1 = log0 @ [(Trace, File_ID file_id)]
          in if file_id \<noteq> ''fspy''
             then parse_failed self p1 log1 (ValueError ''Invalid fSpy file format'')
             else
               let p2 = f_tell f p1 4 in
               case unpack_I (f_read f p1 4) of
                 Inl e \<Rightarrow> parse_failed self p2 log1 e
               | Inr version \<Rightarrow>
                   let log2 = log1 @ [(Trace, Version version)];
                       p3 = f_tell f p2 4
                   in case unpack_I (f_read f p2 4) of
                        Inl e \<Rightarrow> parse_failed self p3 log2 e
                      | Inr state_size \<Rightarrow>
                          let log3 = log2 @ [(Trace, State_size state_size)];
                              p4 = f_tell f p3 4
                          in case unpack_I (f_read f p3 4) of
                               Inl e \<Rightarrow> parse_failed self p4 log3 e
                             | Inr image_size \<Rightarrow>
                                 let log4 = log3 @ [(Trace, Image_size image_size)]
                                 in case read_error p4 state_size of
                                      Some e \<Rightarrow> parse_failed self p4 log4 e
                                    | None \<Rightarrow>
                                 let raw = f_read f p4 state_size;
                                     p5 = f_tell f p4 state_size;
                                     log5 = log4 @ [(Trace, Raw_state_data (take 100 raw))];
                                     stripped = filter (\<lambda>c. c \<noteq> CHR 0x00) raw
                                 in case loads_utf8 stripped of
                                      Inl e \<Rightarrow> parse_failed self p5 log5 e
                                    | Inr js \<Rightarrow>
                                        let self1 = self\<lparr>state_data := js\<rparr>;
                                            log6 = log5 @ [(Trace, Parsed_JSON_data js)]
                                        in case read_error p5 image_size of
                                             Some e \<Rightarrow> parse_failed self1 p5 log6 e
                                           | None \<Rightarrow>
                                        let self2 = self1\<lparr>image_data :=
                                                      Some (f_read f p5 image_size)\<rparr>;
                                            p6 = f_tell f p5 image_size
                                        in \<lparr>returned = True, self_after = self2, file_pos = p6,
                                            log_calls = log6 @ [(Trace, Image_data_loaded),
                                              (Info, Successfully_parsed (filepath self))]\<rparr>)"

subsection \<open>The specification's read sequence\<close>












section \<open>FSpyParser.get_camera_transform\<close>

text \<open>The default of \<open>transform.get('rows', ...)\<close>: the rows of the 4x4 identity.\<close>

definition identity_rows :: json where
  "identity_rows =
     JArr [JArr [JNum 1, JNum 0, JNum 0, JNum 0],
           JArr [JNum 0, JNum 1, JNum 0, JNum 0],
           JArr [JNum 0, JNum 0, JNum 1, JNum 0],
           JArr [JNum 0, JNum 0, JNum 0, JNum 1]]"

text \<open>\<open>rows[i][j]\<close>.\<close>

definition py_index2 :: "json \<Rightarrow> nat \<Rightarrow> nat \<Rightarrow> exn + json" where
  "py_index2 v i j = bind_exn (py_index v i) (\<lambda>row. py_index row j)"

text \<open>
  \<open>USE_NUMPY\<close> and \<open>np.array\<close>. The parameter \<open>numpy\<close> is \<open>None\<close> when numpy cannot
  be imported. Otherwise it holds what \<open>np.array\<close> makes of a nested list that is not
  made of numbers only: the entries of the array, or the exception raised (numpy raises
  a \<open>ValueError\<close> on ragged entries, for one). Of a nested list of numbers \<open>np.array\<close>
  is the array of those numbers. An array is represented by the rows of its entries.
\<close>

fun is_number :: "json \<Rightarrow> bool" where
  "is_number (JNum r) = True"
| "is_number _ = False"

definition all_numbers :: "json list list \<Rightarrow> bool" where
  "all_numbers m = list_all (list_all is_number) m"

definition to_matrix ::
  "(json list list \<Rightarrow> exn + json list list) option \<Rightarrow> json list list
     \<Rightarrow> exn + json list list" where
  "to_matrix numpy rotation_matrix =
     (case numpy of
        None \<Rightarrow> Inr (Matrix3x3 rotation_matrix)
      | Some np_array \<Rightarrow>
          if all_numbers rotation_matrix then Inr rotation_matrix
          else np_array rotation_matrix)"

text \<open>
  The second half of the \<open>try\<close> block: the position \<open>[rows[0][3], rows[1][3],
  rows[2][3]]\<close>, the nested list \<open>[[rows[i][j] for j in range(3)] for i in range(3)]\<close>
  and its conversion, \<open>np.array(rotation_matrix)\<close> with numpy and
  \<open>Matrix3x3(rotation_matrix)\<close> without. The entries of \<open>rows\<close> are copied as they
  are, whatever their type.
\<close>

definition position_and_rotation ::
  "(json list list \<Rightarrow> exn + json list list) option \<Rightarrow> json
     \<Rightarrow> exn + (json list \<times> json list list)" where
  "position_and_rotation numpy rows =
     bind_exn (sequence_exn [py_index2 rows 0 3, py_index2 rows 1 3, py_index2 rows 2 3])
       (\<lambda>position.
     bind_exn (sequence_exn (map (\<lambda>i. sequence_exn (map (\<lambda>j. py_index2 rows i j) [0..<3]))
                  [0..<3]))
       (\<lambda>rotation_matrix.
     bind_exn (to_matrix numpy rotation_matrix)
       (\<lambda>matrix.
     Inr (position, matrix))))"

text \<open>
  The body of the \<open>try\<close> block of \<open>get_camera_transform\<close>, applied to
  \<open>self.state_data\<close>: the position and the data of the rotation matrix, or the
  exception raised. The two calls of \<open>log_message\<close> at level \<open>trace\<close> are left out.
\<close>

definition get_camera_transform_try ::
  "(json list list \<Rightarrow> exn + json list list) option \<Rightarrow> json
     \<Rightarrow> exn + (json list \<times> json list list)" where
  "get_camera_transform_try numpy state =
     bind_exn (py_get state ''cameraParameters'' (JObj [])) (\<lambda>camera_parameters.
       if \<not> truthy camera_parameters
       then Inl (ValueError ''No camera parameters found'')
       else
         bind_exn (py_get camera_parameters ''cameraTransform'' (JObj [])) (\<lambda>transform.
         bind_exn (py_get transform ''rows'' identity_rows) (\<lambda>rows.
         position_and_rotation numpy rows)))"

text \<open>
  \<open>get_camera_transform\<close>: the handler \<open>except Exception\<close> logs the exception and
  returns \<open>None\<close>, so the method itself never raises.
\<close>

definition get_camera_transform ::
  "(json list list \<Rightarrow> exn + json list list) option \<Rightarrow> FSpyParser
     \<Rightarrow> (json list \<times> json list list) option" where
  "get_camera_transform numpy self =
     (case get_camera_transform_try numpy (state_data self) of
        Inl e \<Rightarrow> None
      | Inr r \<Rightarrow> Some r)"

section \<open>PluginDialog.import_camera: the camera properties\<close>

text \<open>
  The attributes of the Maya camera that the block \<open>if params:\<close> of \<open>import_camera\<close>
  (film back, film offset, film fit, lock, focal length) sets with \<open>cmds.setAttr\<close>. The
  camera comes from \<open>cmds.camera\<close>; its initial attribute values are Maya's and are a
  parameter here.
\<close>

record maya_camera =
  horizontalFilmAperture :: real
  verticalFilmAperture :: real
  horizontalFilmOffset :: real
  verticalFilmOffset :: real
  filmFit :: int
  focalLength :: real
  tx_lock :: bool

definition horiz_aperture_mm :: real where
  "horiz_aperture_mm = 36"

definition mm_to_inch :: real where
  "mm_to_inch = 393701 / 10000000"

text \<open>
  Film back: \<open>image_width\<close>, \<open>image_height\<close>, \<open>aspect_ratio\<close>, \<open>vert_aperture_mm\<close>
  and the two apertures in inches. Returns \<open>(horiz_aperture_inch, vert_aperture_inch,
  vert_aperture_mm)\<close>.
\<close>

definition film_back :: "(string \<Rightarrow> real option) \<Rightarrow> json \<Rightarrow> exn + (real \<times> real \<times> real)" where
  "film_back float_of_str params =
     bind_exn (py_get params ''imageWidth'' (JNum 1920)) (\<lambda>w.
     bind_exn (py_float float_of_str w) (\<lambda>image_width.
     bind_exn (py_get params ''imageHeight'' (JNum 1080)) (\<lambda>h.
     bind_exn (py_float float_of_str h) (\<lambda>image_height.
     bind_exn (py_div image_width image_height) (\<lambda>aspect_ratio.
     bind_exn (py_div horiz_aperture_mm aspect_ratio) (\<lambda>vert_aperture_mm.
     Inr (horiz_aperture_mm * mm_to_inch, vert_aperture_mm * mm_to_inch,
          vert_aperture_mm)))))))"

text \<open>
  Film offset: computed only when \<open>principal_point\<close> is a \<open>list\<close> of length 2
  (\<open>isinstance(principal_point, list) and len(principal_point) == 2\<close>); \<open>None\<close> when the
  guard is false and nothing is set.
\<close>

definition film_offset ::
  "(string \<Rightarrow> real option) \<Rightarrow> json \<Rightarrow> real \<Rightarrow> exn + (real \<times> real) option" where
  "film_offset float_of_str params vert_aperture_mm =
     bind_exn (py_get params ''principalPoint'' (JArr [JNum 0, JNum 0])) (\<lambda>principal_point.
       case principal_point of
         JArr [p0, p1] \<Rightarrow>
           bind_exn (py_float float_of_str p0) (\<lambda>x.
           bind_exn (py_float float_of_str p1) (\<lambda>y.
           Inr (Some (x * horiz_aperture_mm * mm_to_inch, y * vert_aperture_mm * mm_to_inch))))
       | _ \<Rightarrow> Inr None)"

text \<open>
  Focal length: set only when \<open>horizontalFieldOfView\<close> is not \<open>None\<close>;
  \<open>math.degrees\<close> and \<open>math.radians\<close> multiply by \<open>180 / pi\<close> and \<open>pi / 180\<close>. Where
  the cosine of the half angle is zero the real tangent is not defined (HOL gives 0, and
  the model a \<open>ZeroDivisionError\<close>); the statements below do not go there.
\<close>

definition focal_length_from_fov :: "json \<Rightarrow> exn + real option" where
  "focal_length_from_fov params =
     bind_exn (py_get params ''horizontalFieldOfView'' JNull) (\<lambda>horizontal_fov.
       if horizontal_fov = JNull then Inr None
       else
         bind_exn (py_real horizontal_fov) (\<lambda>fov.
           let horizontal_fov_degrees = fov * 180 / pi
           in bind_exn (py_div (horiz_aperture_mm / 2)
                          (tan ((horizontal_fov_degrees * pi / 180) / 2)))
                (\<lambda>focal_length. Inr (Some focal_length))))"

text \<open>
  The block \<open>if params:\<close> under "camera properties" in \<open>import_camera\<close>: the camera
  after the block and the exception that ended it, if any (\<open>import_camera\<close> logs it and
  raises it again). The attributes set before an exception stay set.
\<close>

definition import_camera_properties ::
  "(string \<Rightarrow> real option) \<Rightarrow> json \<Rightarrow> maya_camera \<Rightarrow> exn option \<times> maya_camera" where
  "import_camera_properties float_of_str params cam =
     (if \<not> truthy params then (None, cam)
      else
        case film_back float_of_str params of
          Inl e \<Rightarrow> (Some e, cam)
        | Inr (horiz_aperture_inch, vert_aperture_inch, vert_aperture_mm) \<Rightarrow>
            let cam1 = cam\<lparr>horizontalFilmAperture := horiz_aperture_inch,
                            verticalFilmAperture := vert_aperture_inch\<rparr>
            in case film_offset float_of_str params vert_aperture_mm of
                 Inl e \<Rightarrow> (Some e, cam1)
               | Inr offset \<Rightarrow>
                   let cam2 = (case offset of
                                 None \<Rightarrow> cam1
                               | Some (x_offset_inch, y_offset_inch) \<Rightarrow>
                                   cam1\<lparr>horizontalFilmOffset := x_offset_inch,
                                         verticalFilmOffset := y_offset_inch\<rparr>);
                       cam3 = cam2\<lparr>filmFit := 1, tx_lock := True\<rparr>
                   in case focal_length_from_fov params of
                        Inl e \<Rightarrow> (Some e, cam3)
                      | Inr None \<Rightarrow> (None, cam3)
                      | Inr (Some focal_length) \<Rightarrow> (None, cam3\<lparr>focalLength := focal_length\<rparr>))"

section \<open>PluginDialog.update_camera_info\<close>

text \<open>
  The lines of the information text, each represented by the values it formats.
  \<open>int(x)\<close> of a float truncates towards zero. \<open>os.path.basename\<close> is not modelled: the
  first line carries the path.
\<close>

datatype info_line =
    Info_file string
  | Info_image_size int int
  | Info_aspect_ratio real
  | Info_horizontal_fov real
  | Info_camera_position real real real
  | Info_camera_rotation real real real
  | Info_focal_length real
  | Info_principal_point real real
  | Info_unit json

definition py_int :: "real \<Rightarrow> int" where
  "py_int x = (if 0 \<le> x then \<lfloor>x\<rfloor> else \<lceil>x\<rceil>)"

text \<open>
  \<open>rotation_matrix_to_euler\<close> called on the matrix of \<open>get_camera_transform\<close>, whose
  entries are whatever the file holds: the entries the function reads are used as
  numbers, in the order it reads them, and the formulas are those of
  \<open>rotation_matrix_to_euler\<close> above.
\<close>

definition rotation_matrix_to_euler_py :: "json list list \<Rightarrow> exn + real list" where
  "rotation_matrix_to_euler_py matrix_data =
     bind_exn (py_real (matrix_data ! 0 ! 0)) (\<lambda>m00.
     bind_exn (py_real (matrix_data ! 1 ! 0)) (\<lambda>m10.
       let sy = sqrt (m00\<^sup>2 + m10\<^sup>2)
       in if \<not> sy < 1 / 10 ^ 6
          then
            bind_exn (py_real (matrix_data ! 2 ! 1)) (\<lambda>m21.
            bind_exn (py_real (matrix_data ! 2 ! 2)) (\<lambda>m22.
            bind_exn (py_real (matrix_data ! 2 ! 0)) (\<lambda>m20.
            Inr [atan2 m21 m22, atan2 (- m20) sy, atan2 m10 m00])))
          else
            bind_exn (py_real (matrix_data ! 1 ! 2)) (\<lambda>m12.
            bind_exn (py_real (matrix_data ! 1 ! 1)) (\<lambda>m11.
            bind_exn (py_real (matrix_data ! 2 ! 0)) (\<lambda>m20.
            Inr [atan2 (- m12) m11, atan2 (- m20) sy, 0])))))"

text \<open>The lines "Camera Position" and "Camera Rotation (degrees)", under \<open>if transform_data:\<close>.\<close>

definition transform_lines ::
  "(json list \<times> json list list) option \<Rightarrow> exn + info_line list" where
  "transform_lines transform_data =
     (case transform_data of
        None \<Rightarrow> Inr []
      | Some (pos, rot_matrix) \<Rightarrow>
          bind_exn (py_format_f (pos ! 0)) (\<lambda>px.
          bind_exn (py_format_f (pos ! 1)) (\<lambda>py.
          bind_exn (py_format_f (pos ! 2)) (\<lambda>pz.
          bind_exn (rotation_matrix_to_euler_py rot_matrix) (\<lambda>rot_euler.
          Inr [Info_camera_position px py pz,
               Info_camera_rotation (rot_euler ! 0 * 180 / pi) (rot_euler ! 1 * 180 / pi)
                 (rot_euler ! 2 * 180 / pi)])))))"

text \<open>
  The body of the \<open>try\<close> block of \<open>update_camera_info\<close>: the lines given to
  \<open>setText\<close>, or the exception, which the handler logs (the text is then left as it
  was).
\<close>

definition update_camera_info ::
  "(string \<Rightarrow> real option) \<Rightarrow> FSpyParser \<Rightarrow> json \<Rightarrow> (json list \<times> json list list) option
     \<Rightarrow> exn + info_line list" where
  "update_camera_info float_of_str fspy_parser params transform_data =
     bind_exn (py_get params ''imageWidth'' (JNum 1920)) (\<lambda>w.
     bind_exn (py_float float_of_str w) (\<lambda>image_width.
     bind_exn (py_get params ''imageHeight'' (JNum 1920)) (\<lambda>h.
     bind_exn (py_float float_of_str h) (\<lambda>image_height.
     bind_exn (py_div image_width image_height) (\<lambda>aspect.
     bind_exn (py_get params ''horizontalFieldOfView'' JNull) (\<lambda>horizontal_fov.
     bind_exn (if horizontal_fov \<noteq> JNull
               then bind_exn (py_float float_of_str horizontal_fov)
                      (\<lambda>fov. Inr [Info_horizontal_fov (fov * 180 / pi)])
               else Inr []) (\<lambda>fov_lines.
     bind_exn (transform_lines transform_data) (\<lambda>position_lines.
     bind_exn (if horizontal_fov \<noteq> JNull
               then bind_exn (py_real horizontal_fov)
                      (\<lambda>fov. py_div (36 / 2) (tan (fov / 2)))
               else Inr 35) (\<lambda>focal_length.
     bind_exn (py_get params ''principalPoint'' (JObj [(''x'', JNum 0), (''y'', JNum 0)]))
       (\<lambda>principal_point.
     bind_exn (case principal_point of
                 JObj kvs \<Rightarrow>
                   bind_exn (py_get principal_point ''x'' (JNum 0)) (\<lambda>x.
                   bind_exn (py_format_f x) (\<lambda>px.
                   bind_exn (py_get principal_point ''y'' (JNum 0)) (\<lambda>y.
                   bind_exn (py_format_f y) (\<lambda>py.
                   Inr [Info_principal_point px py]))))
               | _ \<Rightarrow> Inr []) (\<lambda>principal_lines.
     bind_exn (py_get (state_data fspy_parser) ''calibrationSettingsBase'' (JObj []))
       (\<lambda>settings.
     bind_exn (py_get settings ''referenceDistanceUnit'' (JStr ''Meters'')) (\<lambda>unit.
     Inr ([Info_file (filepath fspy_parser),
           Info_image_size (py_int image_width) (py_int image_height),
           Info_aspect_ratio aspect]
          @ fov_lines @ position_lines
          @ [Info_focal_length focal_length]
          @ principal_lines
          @ [Info_unit unit]))))))))))))))"

text \<open>
  A camera to start the examples from: a 36 x 24 mm film back in inches, no offsets, a
  focal length of 35 mm.
\<close>

definition example_camera :: maya_camera where
  "example_camera =
     \<lparr>horizontalFilmAperture = 1417 / 1000, verticalFilmAperture = 945 / 1000,
      horizontalFilmOffset = 0, verticalFilmOffset = 0, filmFit = 0, focalLength = 35,
      tx_lock = False\<rparr>"

section \<open>Rotation matrices: lemmas\<close>

lemma upt3: "[0..<3] = [0, 1, 2]"
  by (simp add: upt_rec numeral_3_eq_3)

lemma Matrix3x3_rows:
  "Matrix3x3 [[a, b, c], [d, e, f], [g, h, i]] = [[a, b, c], [d, e, f], [g, h, i]]"
  by (simp add: Matrix3x3_def upt3)

lemma dot_rows:
  "dot [[a, b, c], [d, e, f], [g, h, i]] [[a', b', c'], [d', e', f'], [g', h', i']] =
     [[a * a' + b * d' + c * g', a * b' + b * e' + c * h', a * c' + b * f' + c * i'],
      [d * a' + e * d' + f * g', d * b' + e * e' + f * h', d * c' + e * f' + f * i'],
      [g * a' + h * d' + i * g', g * b' + h * e' + i * h', g * c' + h * f' + i * i']]"
  by (simp add: dot_def Matrix3x3_def dot_product_def upt3)

lemma matrix_product_rows:
  "matrix_product [[a, b, c], [d, e, f], [g, h, i]] [[a', b', c'], [d', e', f'], [g', h', i']] =
     [[a * a' + b * d' + c * g', a * b' + b * e' + c * h', a * c' + b * f' + c * i'],
      [d * a' + e * d' + f * g', d * b' + e * e' + f * h', d * c' + e * f' + f * i'],
      [g * a' + h * d' + i * g', g * b' + h * e' + i * h', g * c' + h * f' + i * i']]"
  by (simp add: matrix_product_def upt3 numeral_3_eq_3 sum.atLeast0_lessThan_Suc)

lemma create_rotation_matrix_entries:
  "create_rotation_matrix x y z =
     [[cos z * cos y, cos z * sin y * sin x - sin z * cos x, cos z * sin y * cos x + sin z * sin x],
      [sin z * cos y, sin z * sin y * sin x + cos z * cos x, sin z * sin y * cos x - cos z * sin x],
      [- sin y, cos y * sin x, cos y * cos x]]"
  by (simp add: create_rotation_matrix_def Matrix3x3_rows dot_rows algebra_simps)

lemma standard_rotations_right_handed:
  "column (Rx_standard (pi / 2)) 1 = [0, 0, 1]"
  "column (Ry_standard (pi / 2)) 2 = [1, 0, 0]"
  "column (Rz_standard (pi / 2)) 0 = [0, 1, 0]"
  by (simp_all add: column_def Rx_standard_def Ry_standard_def Rz_standard_def)

text \<open>
  C2: for every angle triple, \<open>create_rotation_matrix x y z\<close> is the matrix product
  \<open>Rz(z) \<cdot> Ry(y) \<cdot> Rx(x)\<close> of the standard right-handed elementary rotations, with
  \<open>Rz\<close> the leftmost factor; the product is the same in both bracketings.
\<close>

theorem create_rotation_matrix_is_Rz_Ry_Rx:
  "create_rotation_matrix x y z =
     matrix_product (Rz_standard z) (matrix_product (Ry_standard y) (Rx_standard x))
   \<and> create_rotation_matrix x y z =
     matrix_product (matrix_product (Rz_standard z) (Ry_standard y)) (Rx_standard x)"
  by (simp add: create_rotation_matrix_entries Rx_standard_def Ry_standard_def Rz_standard_def
      matrix_product_rows algebra_simps)

subsection \<open>The range and the polar form of atan2\<close>

lemma atan2_range_nonneg: "0 \<le> x \<Longrightarrow> - (pi / 2) \<le> atan2 y x \<and> atan2 y x \<le> pi / 2"
  using arctan_bounded[of "y / x"] by (auto simp: atan2_def)

lemma cos_nonpos_upper: "pi / 2 \<le> t \<Longrightarrow> t \<le> pi \<Longrightarrow> cos t \<le> 0"
  using cos_monotone_0_pi_le[of "pi / 2" t] by simp

lemma cos_pos_imp_range:
  assumes "0 < cos t" "- pi < t" "t \<le> pi"
  shows "- (pi / 2) < t \<and> t < pi / 2"
proof -
  have "t < pi / 2"
    using cos_nonpos_upper[of t] assms by linarith
  moreover have "- (pi / 2) < t"
  proof -
    have "cos (- t) = cos t" by simp
    then show ?thesis
      using cos_nonpos_upper[of "- t"] assms by linarith
  qed
  ultimately show ?thesis by simp
qed

lemma cos_neg_imp_range:
  assumes "cos t < 0" "- pi < t" "t \<le> pi"
  shows "t < - (pi / 2) \<or> pi / 2 < t"
  using cos_ge_zero[of t] assms by linarith

lemma cos_zero_imp:
  assumes "cos t = 0" "- pi < t" "t \<le> pi"
  shows "t = - (pi / 2) \<or> t = pi / 2"
proof (cases "0 \<le> t")
  case True
  then have "t = pi / 2"
    using cos_inj_pi[of t "pi / 2"] assms by simp
  then show ?thesis by simp
next
  case False
  then have "- t = pi / 2"
    using cos_inj_pi[of "- t" "pi / 2"] assms by simp
  then show ?thesis by linarith
qed

lemma sin_nonneg_range:
  assumes "0 \<le> sin t" "- pi < t" "t \<le> pi"
  shows "0 \<le> t"
proof (rule ccontr)
  assume "\<not> 0 \<le> t"
  then have "0 < sin (- t)"
    using sin_gt_zero[of "- t"] assms by simp
  then show False using assms by simp
qed

lemma sin_neg_range:
  assumes "sin t < 0" "- pi < t" "t \<le> pi"
  shows "t < 0"
  using sin_ge_zero[of t] assms by linarith

text \<open>
  For a point at distance \<open>r > 0\<close> and angle \<open>t\<close> in the range of \<open>atan2\<close>, \<open>atan2\<close>
  gives the angle back.
\<close>

lemma atan2_polar:
  assumes r: "0 < r" and lo: "- pi < t" and hi: "t \<le> pi"
  shows "atan2 (r * sin t) (r * cos t) = t"
proof -
  have quot: "cos t \<noteq> 0 \<Longrightarrow> (r * sin t) / (r * cos t) = tan t"
    using r by (simp add: tan_def)
  consider (pos) "0 < cos t" | (neg) "cos t < 0" | (zero) "cos t = 0"
    by linarith
  then show ?thesis
  proof cases
    case pos
    then have "0 < r * cos t" using r by simp
    moreover have "arctan (tan t) = t"
      using cos_pos_imp_range[OF pos lo hi] by (simp add: arctan_tan)
    ultimately show ?thesis using pos quot by (simp add: atan2_def)
  next
    case neg
    then have x: "r * cos t < 0" using r by (simp add: mult_pos_neg)
    show ?thesis
    proof (cases "0 \<le> sin t")
      case True
      then have "0 \<le> t" using sin_nonneg_range lo hi by blast
      then have "pi / 2 < t" using cos_neg_imp_range[OF neg lo hi] by linarith
      then have "arctan (tan (t - pi)) = t - pi"
        using hi by (intro arctan_tan) linarith+
      moreover have "tan (t - pi) = tan t"
        using tan_periodic_pi[of "t - pi"] by simp
      moreover have "0 \<le> r * sin t" using True r by simp
      ultimately show ?thesis using x neg quot by (simp add: atan2_def)
    next
      case False
      then have "t < 0" using sin_neg_range[of t] lo hi by simp
      then have "t < - (pi / 2)" using cos_neg_imp_range[OF neg lo hi] by linarith
      then have "arctan (tan (t + pi)) = t + pi"
        using lo by (intro arctan_tan) linarith+
      moreover have "tan (t + pi) = tan t"
        by (rule tan_periodic_pi)
      moreover have "\<not> 0 \<le> r * sin t" using False r by (simp add: zero_le_mult_iff)
      ultimately show ?thesis using x neg quot by (simp add: atan2_def)
    qed
  next
    case zero
    from cos_zero_imp[OF zero lo hi] show ?thesis
    proof
      assume t: "t = - (pi / 2)"
      show ?thesis unfolding t using r by (simp add: atan2_def)
    next
      assume t: "t = pi / 2"
      show ?thesis unfolding t using r by (simp add: atan2_def)
    qed
  qed
qed

text \<open>On the unit circle, \<open>atan2\<close> returns an angle with the given cosine and sine.\<close>

lemma cos_sin_atan2_unit:
  assumes "x\<^sup>2 + y\<^sup>2 = 1"
  shows "cos (atan2 y x) = x \<and> sin (atan2 y x) = y"
proof -
  have root: "x \<noteq> 0 \<Longrightarrow> sqrt (1 + (y / x)\<^sup>2) = 1 / \<bar>x\<bar>"
  proof -
    assume nz: "x \<noteq> 0"
    have "1 + (y / x)\<^sup>2 = (x\<^sup>2 + y\<^sup>2) / x\<^sup>2"
      using nz by (simp add: field_simps power2_eq_square)
    also have "\<dots> = (1 / \<bar>x\<bar>)\<^sup>2"
      using assms by (simp add: power_divide)
    finally show ?thesis
      by (simp add: real_sqrt_abs del: power_divide)
  qed
  consider (pos) "0 < x" | (neg) "x < 0" | (zero) "x = 0" by linarith
  then show ?thesis
  proof cases
    case pos
    then show ?thesis using root
      by (simp add: atan2_def cos_arctan sin_arctan)
  next
    case neg
    then show ?thesis using root
      by (simp add: atan2_def cos_arctan sin_arctan cos_diff sin_diff cos_add sin_add)
  next
    case zero
    then have "y\<^sup>2 = 1" using assms by simp
    then have "y = 1 \<or> y = -1" by (simp add: power2_eq_1_iff)
    then show ?thesis using zero by (auto simp: atan2_def)
  qed
qed

lemma cos_sin_atan2_angle:
  "cos (atan2 (sin t) (cos t)) = cos t \<and> sin (atan2 (sin t) (cos t)) = sin t"
  by (rule cos_sin_atan2_unit) (simp add: add.commute)

text \<open>
  \<open>atan2\<close> depends only on the direction of its argument, so for any vector other than
  the origin it returns an angle whose cosine and sine are the normalised coordinates.
\<close>

lemma atan2_scale:
  assumes "0 < r"
  shows "atan2 (r * y) (r * x) = atan2 y x"
  using assms by (simp add: atan2_def zero_less_mult_iff mult_less_0_iff zero_le_mult_iff)

lemma cos_sin_atan2:
  assumes "x \<noteq> 0 \<or> y \<noteq> 0"
  shows "cos (atan2 y x) = x / sqrt (x\<^sup>2 + y\<^sup>2) \<and> sin (atan2 y x) = y / sqrt (x\<^sup>2 + y\<^sup>2)"
proof -
  let ?n = "sqrt (x\<^sup>2 + y\<^sup>2)"
  have pos: "0 < x\<^sup>2 + y\<^sup>2"
    using assms by (simp add: sum_power2_gt_zero_iff)
  then have n: "0 < ?n" by (rule real_sqrt_gt_zero)
  have "(x / ?n)\<^sup>2 + (y / ?n)\<^sup>2 = (x\<^sup>2 + y\<^sup>2) / ?n\<^sup>2"
    by (simp only: power_divide add_divide_distrib)
  also have "\<dots> = 1" using pos by (simp only: real_sqrt_pow2[OF less_imp_le[OF pos]] divide_self[OF less_imp_neq[OF pos, symmetric]])
  finally have unit: "(x / ?n)\<^sup>2 + (y / ?n)\<^sup>2 = 1" .
  have "atan2 ((1 / ?n) * y) ((1 / ?n) * x) = atan2 y x"
    using n by (intro atan2_scale) simp
  then have "atan2 (y / ?n) (x / ?n) = atan2 y x" by simp
  then show ?thesis
    using cos_sin_atan2_unit[OF unit] by simp
qed

lemma cos_sin_atan2_scaled:
  assumes "c \<noteq> 0"
  shows "cos (atan2 (c * sin t) (c * cos t)) = sgn c * cos t
       \<and> sin (atan2 (c * sin t) (c * cos t)) = sgn c * sin t"
proof (cases "0 < c")
  case True
  then show ?thesis
    using cos_sin_atan2_angle[of t] by (simp add: atan2_scale)
next
  case False
  then have neg: "0 < - c" using assms by simp
  have "atan2 (c * sin t) (c * cos t) = atan2 ((- c) * sin (t + pi)) ((- c) * cos (t + pi))"
    by simp
  also have "\<dots> = atan2 (sin (t + pi)) (cos (t + pi))"
    using neg by (rule atan2_scale)
  finally show ?thesis
    using cos_sin_atan2_angle[of "t + pi"] neg by simp
qed

lemma cos_sin_atan2_pitch:
  "cos (atan2 (sin y) \<bar>cos y\<bar>) = \<bar>cos y\<bar> \<and> sin (atan2 (sin y) \<bar>cos y\<bar>) = sin y"
  by (rule cos_sin_atan2_unit) simp

subsection \<open>Decomposition and round trip\<close>

text \<open>
  C10: for every matrix of three rows of three numbers, the second angle returned by
  \<open>rotation_matrix_to_euler\<close> is \<open>atan2 (- R[2][0]) sy\<close> with
  \<open>sy = sqrt (R[0][0]^2 + R[1][0]^2)\<close>, which is never negative, and so the angle lies
  in the closed interval from \<open>- pi / 2\<close> to \<open>pi / 2\<close>.
\<close>

theorem rotation_matrix_to_euler_pitch_range:
  assumes "map length m = [3, 3, 3]"
  shows "rotation_matrix_to_euler m ! 1 =
           atan2 (- (m ! 2 ! 0)) (sqrt ((m ! 0 ! 0)\<^sup>2 + (m ! 1 ! 0)\<^sup>2))
       \<and> 0 \<le> sqrt ((m ! 0 ! 0)\<^sup>2 + (m ! 1 ! 0)\<^sup>2)
       \<and> - (pi / 2) \<le> rotation_matrix_to_euler m ! 1
       \<and> rotation_matrix_to_euler m ! 1 \<le> pi / 2"
proof -
  let ?sy = "sqrt ((m ! 0 ! 0)\<^sup>2 + (m ! 1 ! 0)\<^sup>2)"
  have sy: "0 \<le> ?sy" by simp
  have snd: "rotation_matrix_to_euler m ! 1 = atan2 (- (m ! 2 ! 0)) ?sy"
    by (simp add: rotation_matrix_to_euler_def Let_def)
  show ?thesis
    using atan2_range_nonneg[OF sy, of "- (m ! 2 ! 0)"] sy snd by simp
qed

theorem rotation_matrix_to_euler_pitch_range_witness:
  "map length [[0, -1, 0], [1, 0, 0], [0, 0, 1::real]] = [3, 3, 3]
   \<and> - (pi / 2) \<le> rotation_matrix_to_euler [[0, -1, 0], [1, 0, 0], [0, 0, 1]] ! 1
   \<and> rotation_matrix_to_euler [[0, -1, 0], [1, 0, 0], [0, 0, 1]] ! 1 \<le> pi / 2"
  using rotation_matrix_to_euler_pitch_range[of "[[0, -1, 0], [1, 0, 0], [0, 0, 1]]"]
  by simp

lemma sy_of_rotation:
  "sqrt ((cos z * cos y)\<^sup>2 + (sin z * cos y)\<^sup>2) = \<bar>cos y\<bar>"
proof -
  have "(cos z * cos y)\<^sup>2 + (sin z * cos y)\<^sup>2 = ((cos z)\<^sup>2 + (sin z)\<^sup>2) * (cos y)\<^sup>2"
    by (simp only: power_mult_distrib distrib_right)
  then show ?thesis by simp
qed

lemma roundtrip_regular:
  assumes x: "- pi < x" "x \<le> pi" and y: "- pi < y" "y \<le> pi" and c: "1 / 10 ^ 6 \<le> cos y"
    and z: "- pi < z" "z \<le> pi"
  shows "rotation_matrix_to_euler (create_rotation_matrix x y z) = [x, y, z]"
proof -
  have cpos: "0 < cos y" using c by (simp add: less_le_trans[of 0 "1 / 10 ^ 6"])
  have sy: "sqrt ((cos z * cos y)\<^sup>2 + (sin z * cos y)\<^sup>2) = cos y"
    using cpos by (simp add: sy_of_rotation)
  have ax: "atan2 (cos y * sin x) (cos y * cos x) = x"
    using atan2_polar[OF cpos x] .
  have ay: "atan2 (sin y) (cos y) = y"
    using atan2_polar[of 1 y] y by simp
  have az: "atan2 (sin z * cos y) (cos z * cos y) = z"
    using atan2_polar[OF cpos z] by (simp add: mult.commute)
  have ns: "\<not> singular (create_rotation_matrix x y z)"
    using c by (simp add: singular_def create_rotation_matrix_entries sy)
  show ?thesis
    using ns by (simp add: rotation_matrix_to_euler_def create_rotation_matrix_entries sy ax ay az)
qed

lemma roundtrip_gimbal_pos:
  assumes "y = pi / 2"
  shows "singular (create_rotation_matrix x y z)"
    and "create_rotation_matrix (rotation_matrix_to_euler (create_rotation_matrix x y z) ! 0)
           (rotation_matrix_to_euler (create_rotation_matrix x y z) ! 1)
           (rotation_matrix_to_euler (create_rotation_matrix x y z) ! 2) = create_rotation_matrix x y z"
proof -
  show s: "singular (create_rotation_matrix x y z)"
    unfolding assms by (simp add: singular_def create_rotation_matrix_entries)
  have e: "rotation_matrix_to_euler (create_rotation_matrix x (pi / 2) z) =
        [atan2 (sin (x - z)) (cos (x - z)), pi / 2, 0]"
    using s unfolding assms
    by (simp add: rotation_matrix_to_euler_def create_rotation_matrix_entries
        atan2_def sin_diff cos_diff algebra_simps)
  show "create_rotation_matrix (rotation_matrix_to_euler (create_rotation_matrix x y z) ! 0)
           (rotation_matrix_to_euler (create_rotation_matrix x y z) ! 1)
           (rotation_matrix_to_euler (create_rotation_matrix x y z) ! 2) = create_rotation_matrix x y z"
    unfolding assms e using cos_sin_atan2_angle[of "x - z"]
    by (simp add: create_rotation_matrix_entries sin_diff cos_diff algebra_simps)
qed

lemma roundtrip_gimbal_neg:
  assumes "y = - (pi / 2)"
  shows "singular (create_rotation_matrix x y z)"
    and "create_rotation_matrix (rotation_matrix_to_euler (create_rotation_matrix x y z) ! 0)
           (rotation_matrix_to_euler (create_rotation_matrix x y z) ! 1)
           (rotation_matrix_to_euler (create_rotation_matrix x y z) ! 2) = create_rotation_matrix x y z"
proof -
  show s: "singular (create_rotation_matrix x y z)"
    unfolding assms by (simp add: singular_def create_rotation_matrix_entries)
  have e: "rotation_matrix_to_euler (create_rotation_matrix x (- (pi / 2)) z) =
        [atan2 (sin (x + z)) (cos (x + z)), - (pi / 2), 0]"
    using s unfolding assms
    by (simp add: rotation_matrix_to_euler_def create_rotation_matrix_entries
        atan2_def sin_add cos_add algebra_simps)
  show "create_rotation_matrix (rotation_matrix_to_euler (create_rotation_matrix x y z) ! 0)
           (rotation_matrix_to_euler (create_rotation_matrix x y z) ! 1)
           (rotation_matrix_to_euler (create_rotation_matrix x y z) ! 2) = create_rotation_matrix x y z"
    unfolding assms e using cos_sin_atan2_angle[of "x + z"]
    by (simp add: create_rotation_matrix_entries sin_add cos_add algebra_simps)
qed

lemma euler_at_pi: "rotation_matrix_to_euler (create_rotation_matrix 0 pi 0) = [pi, 0, pi]"
  by (simp add: rotation_matrix_to_euler_def create_rotation_matrix_entries singular_def atan2_def)

lemma not_singular_at_pi: "\<not> singular (create_rotation_matrix 0 pi 0)"
  by (simp add: create_rotation_matrix_entries singular_def)

subsection \<open>The singular branch of the decomposition\<close>

text \<open>
  Bounds on the entries of a rotation matrix and of the matrix recomposed in the singular
  branch, in terms of the cosines and sines of the three angles.
\<close>

lemma unit_abs_le:
  fixes x y :: real
  assumes "x\<^sup>2 + y\<^sup>2 = 1"
  shows "\<bar>x\<bar> \<le> 1" "\<bar>y\<bar> \<le> 1"
proof -
  have "x\<^sup>2 \<le> 1" using assms zero_le_power2[of y] by linarith
  moreover have "y\<^sup>2 \<le> 1" using assms zero_le_power2[of x] by linarith
  ultimately have "x\<^sup>2 \<le> 1\<^sup>2" "y\<^sup>2 \<le> 1\<^sup>2" by simp_all
  then show "\<bar>x\<bar> \<le> 1" "\<bar>y\<bar> \<le> 1"
    using abs_le_square_iff[of x 1] abs_le_square_iff[of y 1] by simp_all
qed

lemma row_norm:
  fixes c s cx sx cz sz :: real
  assumes "c\<^sup>2 + s\<^sup>2 = 1" "cx\<^sup>2 + sx\<^sup>2 = 1" "cz\<^sup>2 + sz\<^sup>2 = 1"
  shows "(cz * sx - sz * s * cx)\<^sup>2 + (sz * s * sx + cz * cx)\<^sup>2 = 1 - sz\<^sup>2 * c\<^sup>2"
  using assms by algebra

lemma abs_le1_mult:
  fixes u v :: real
  assumes "\<bar>u\<bar> \<le> 1"
  shows "\<bar>u * v\<bar> \<le> \<bar>v\<bar>"
  using mult_right_mono[OF assms abs_ge_zero[of v]] by (simp add: abs_mult)

lemma band_norm:
  fixes c s cx sx cz sz a b r :: real
  assumes u: "c\<^sup>2 + s\<^sup>2 = 1" "cx\<^sup>2 + sx\<^sup>2 = 1" "cz\<^sup>2 + sz\<^sup>2 = 1"
    and small: "\<bar>c\<bar> < 1 / 10 ^ 6"
    and a: "a = cz * sx - sz * s * cx" and b: "b = sz * s * sx + cz * cx"
    and r: "r = sqrt (b\<^sup>2 + a\<^sup>2)"
  shows "0 < r" and "r \<le> 1" and "1 - r \<le> c\<^sup>2" and "c\<^sup>2 \<le> \<bar>c\<bar>"
    and "\<bar>a\<bar> \<le> r" and "\<bar>b\<bar> \<le> r"
proof -
  have kc: "\<bar>c\<bar> \<le> 1" using small by simp
  have "\<bar>c\<bar> * \<bar>c\<bar> \<le> \<bar>c\<bar> * 1"
    using kc by (intro mult_left_mono) simp_all
  then show c2: "c\<^sup>2 \<le> \<bar>c\<bar>" by (simp add: power2_eq_square)
  have small': "\<bar>c\<bar> < 1 / 1000000" using small by simp
  have c2s: "c\<^sup>2 \<le> 1 / 4" using c2 small' by linarith
  have n: "b\<^sup>2 + a\<^sup>2 = 1 - sz\<^sup>2 * c\<^sup>2"
    using row_norm[OF u] a b by (simp add: add.commute)
  have sz1: "sz\<^sup>2 \<le> 1" using u(3) zero_le_power2[of cz] by linarith
  have szc: "sz\<^sup>2 * c\<^sup>2 \<le> c\<^sup>2"
    using mult_right_mono[OF sz1 zero_le_power2[of c]] by simp
  have szc0: "0 \<le> sz\<^sup>2 * c\<^sup>2" by simp
  have nn: "0 \<le> b\<^sup>2 + a\<^sup>2" by simp
  have r2: "r\<^sup>2 = 1 - sz\<^sup>2 * c\<^sup>2"
    unfolding r real_sqrt_pow2[OF nn] by (rule n)
  have r0: "0 \<le> r" unfolding r using nn by (rule real_sqrt_ge_zero)
  have "r\<^sup>2 \<le> 1\<^sup>2" using r2 szc0 by simp
  then show r1: "r \<le> 1" by (rule power2_le_imp_le) simp
  have "r \<noteq> 0"
  proof
    assume "r = 0"
    then have "r\<^sup>2 = 0" by simp
    then show False using r2 szc c2s by linarith
  qed
  then show rpos: "0 < r" using r0 by simp
  have "r * r \<le> 1 * r" using r1 r0 by (intro mult_right_mono) simp_all
  then have "r\<^sup>2 \<le> r" by (simp add: power2_eq_square)
  then show "1 - r \<le> c\<^sup>2" using r2 szc by linarith
  have "a\<^sup>2 \<le> r\<^sup>2" using r2 n zero_le_power2[of b] by linarith
  then show "\<bar>a\<bar> \<le> r" using r0 by (simp add: abs_le_square_iff[symmetric])
  have "b\<^sup>2 \<le> r\<^sup>2" using r2 n zero_le_power2[of a] by linarith
  then show "\<bar>b\<bar> \<le> r" using r0 by (simp add: abs_le_square_iff[symmetric])
qed

lemma band_bounds:
  fixes c s cx sx cz sz a b r p q :: real
  assumes u: "c\<^sup>2 + s\<^sup>2 = 1" "cx\<^sup>2 + sx\<^sup>2 = 1" "cz\<^sup>2 + sz\<^sup>2 = 1"
    and small: "\<bar>c\<bar> < 1 / 10 ^ 6"
    and a: "a = cz * sx - sz * s * cx" and b: "b = sz * s * sx + cz * cx"
    and r: "r = sqrt (b\<^sup>2 + a\<^sup>2)"
    and p: "p = a / r" and q: "q = b / r"
  shows "\<bar>\<bar>c\<bar> - cz * c\<bar> \<le> 2 * \<bar>c\<bar>"
    and "\<bar>s * p - (cz * s * sx - sz * cx)\<bar> \<le> 2 * \<bar>c\<bar>"
    and "\<bar>s * q - (cz * s * cx + sz * sx)\<bar> \<le> 2 * \<bar>c\<bar>"
    and "\<bar>sz * c\<bar> \<le> 2 * \<bar>c\<bar>"
    and "\<bar>q - (sz * s * sx + cz * cx)\<bar> \<le> 2 * \<bar>c\<bar>"
    and "\<bar>- p - (sz * s * cx - cz * sx)\<bar> \<le> 2 * \<bar>c\<bar>"
    and "\<bar>\<bar>c\<bar> * p - c * sx\<bar> \<le> 2 * \<bar>c\<bar>"
    and "\<bar>\<bar>c\<bar> * q - c * cx\<bar> \<le> 2 * \<bar>c\<bar>"
proof -
  note nb = band_norm[OF u small a b r]
  have rpos: "0 < r" and r1: "r \<le> 1" and rl: "1 - r \<le> c\<^sup>2" and c2: "c\<^sup>2 \<le> \<bar>c\<bar>"
    and ar: "\<bar>a\<bar> \<le> r" and br: "\<bar>b\<bar> \<le> r"
    using nb by blast+
  have k: "\<bar>s\<bar> \<le> 1" "\<bar>cx\<bar> \<le> 1" "\<bar>sx\<bar> \<le> 1" "\<bar>cz\<bar> \<le> 1" "\<bar>sz\<bar> \<le> 1"
    using unit_abs_le[OF u(1)] unit_abs_le[OF u(2)] unit_abs_le[OF u(3)] by blast+
  have p1: "\<bar>p\<bar> \<le> 1" unfolding p using ar rpos by (simp add: abs_divide)
  have q1: "\<bar>q\<bar> \<le> 1" unfolding q using br rpos by (simp add: abs_divide)
  have ap: "a = p * r" and bq: "b = q * r" using rpos p q by simp_all
  have d0: "0 \<le> 1 - r" using r1 by simp
  have c0: "0 \<le> c\<^sup>2" by simp
  have s2: "s\<^sup>2 = 1 - c\<^sup>2" using u(1) by linarith
  show "\<bar>\<bar>c\<bar> - cz * c\<bar> \<le> 2 * \<bar>c\<bar>"
    using abs_le1_mult[OF k(4), of c] by linarith
  show "\<bar>sz * c\<bar> \<le> 2 * \<bar>c\<bar>"
    using abs_le1_mult[OF k(5), of c] by linarith
  show "\<bar>\<bar>c\<bar> * p - c * sx\<bar> \<le> 2 * \<bar>c\<bar>"
  proof -
    have "\<bar>p * \<bar>c\<bar>\<bar> \<le> \<bar>c\<bar>" using abs_le1_mult[OF p1, of "\<bar>c\<bar>"] by simp
    moreover have "\<bar>sx * c\<bar> \<le> \<bar>c\<bar>" by (rule abs_le1_mult[OF k(3)])
    moreover have "\<bar>c\<bar> * p - c * sx = p * \<bar>c\<bar> - sx * c" by simp
    ultimately show ?thesis by linarith
  qed
  show "\<bar>\<bar>c\<bar> * q - c * cx\<bar> \<le> 2 * \<bar>c\<bar>"
  proof -
    have "\<bar>q * \<bar>c\<bar>\<bar> \<le> \<bar>c\<bar>" using abs_le1_mult[OF q1, of "\<bar>c\<bar>"] by simp
    moreover have "\<bar>cx * c\<bar> \<le> \<bar>c\<bar>" by (rule abs_le1_mult[OF k(2)])
    moreover have "\<bar>c\<bar> * q - c * cx = q * \<bar>c\<bar> - cx * c" by simp
    ultimately show ?thesis by linarith
  qed
  have "q - (sz * s * sx + cz * cx) = q * (1 - r)"
    using b bq by (simp add: algebra_simps)
  moreover have "\<bar>q * (1 - r)\<bar> \<le> \<bar>1 - r\<bar>" by (rule abs_le1_mult[OF q1])
  ultimately show "\<bar>q - (sz * s * sx + cz * cx)\<bar> \<le> 2 * \<bar>c\<bar>"
    using d0 rl c2 by linarith
  have "- p - (sz * s * cx - cz * sx) = - p * (1 - r)"
    using a ap by (simp add: algebra_simps)
  moreover have "\<bar>- p * (1 - r)\<bar> \<le> \<bar>1 - r\<bar>" using p1 by (intro abs_le1_mult) simp
  ultimately show "\<bar>- p - (sz * s * cx - cz * sx)\<bar> \<le> 2 * \<bar>c\<bar>"
    using d0 rl c2 by linarith
  have sp: "\<bar>s * p\<bar> \<le> 1" using abs_le1_mult[OF k(1), of p] p1 by linarith
  have sq: "\<bar>s * q\<bar> \<le> 1" using abs_le1_mult[OF k(1), of q] q1 by linarith
  have zc: "\<bar>sz * cx\<bar> \<le> 1" using abs_le1_mult[OF k(5), of cx] k(2) by linarith
  have zs: "\<bar>sz * sx\<bar> \<le> 1" using abs_le1_mult[OF k(5), of sx] k(3) by linarith
  have e1: "s * p - (cz * s * sx - sz * cx) = (s * p) * (1 - r) + (sz * cx) * c\<^sup>2"
  proof -
    have "s * a = cz * s * sx - sz * cx * s\<^sup>2"
      unfolding a by (simp add: algebra_simps power2_eq_square)
    then have "s * (p * r) = cz * s * sx - sz * cx * (1 - c\<^sup>2)"
      using ap s2 by simp
    then show ?thesis by (simp add: algebra_simps)
  qed
  have "\<bar>(s * p) * (1 - r)\<bar> \<le> \<bar>1 - r\<bar>" by (rule abs_le1_mult[OF sp])
  moreover have "\<bar>(sz * cx) * c\<^sup>2\<bar> \<le> \<bar>c\<^sup>2\<bar>" by (rule abs_le1_mult[OF zc])
  ultimately show "\<bar>s * p - (cz * s * sx - sz * cx)\<bar> \<le> 2 * \<bar>c\<bar>"
    unfolding e1 using d0 rl c2 c0 by linarith
  have e2: "s * q - (cz * s * cx + sz * sx) = (s * q) * (1 - r) - (sz * sx) * c\<^sup>2"
  proof -
    have "s * b = cz * s * cx + sz * sx * s\<^sup>2"
      unfolding b by (simp add: algebra_simps power2_eq_square)
    then have "s * (q * r) = cz * s * cx + sz * sx * (1 - c\<^sup>2)"
      using bq s2 by simp
    then show ?thesis by (simp add: algebra_simps)
  qed
  have "\<bar>(s * q) * (1 - r)\<bar> \<le> \<bar>1 - r\<bar>" by (rule abs_le1_mult[OF sq])
  moreover have "\<bar>(sz * sx) * c\<^sup>2\<bar> \<le> \<bar>c\<^sup>2\<bar>" by (rule abs_le1_mult[OF zs])
  ultimately show "\<bar>s * q - (cz * s * cx + sz * sx)\<bar> \<le> 2 * \<bar>c\<bar>"
    unfolding e2 using d0 rl c2 c0 by linarith
qed

lemma recomposed_regular:
  assumes "1 / 10 ^ 6 \<le> \<bar>cos y\<bar>"
  shows "\<not> singular (create_rotation_matrix x y z)"
    and "recomposed x y z = create_rotation_matrix x y z"
proof -
  have c: "cos y \<noteq> 0" using assms by auto
  show ns: "\<not> singular (create_rotation_matrix x y z)"
    using assms by (simp add: singular_def create_rotation_matrix_entries sy_of_rotation)
  have e: "rotation_matrix_to_euler (create_rotation_matrix x y z) =
      [atan2 (cos y * sin x) (cos y * cos x), atan2 (sin y) \<bar>cos y\<bar>,
       atan2 (sin z * cos y) (cos z * cos y)]"
    using ns
    by (simp add: rotation_matrix_to_euler_def create_rotation_matrix_entries sy_of_rotation)
  have sg: "sgn (cos y) * sgn (cos y) = 1" "sgn (cos y) * \<bar>cos y\<bar> = cos y"
    using c by (simp_all add: sgn_if)
  have m: "\<And>u v. sgn (cos y) * u * (sgn (cos y) * v) = u * v"
    "\<And>u v w. sgn (cos y) * u * w * (sgn (cos y) * v) = u * w * v"
    "\<And>u. sgn (cos y) * u * \<bar>cos y\<bar> = u * cos y"
    "\<And>u. \<bar>cos y\<bar> * (sgn (cos y) * u) = cos y * u"
    using c by (simp_all add: sgn_if)
  show "recomposed x y z = create_rotation_matrix x y z"
    unfolding recomposed_def e
    using cos_sin_atan2_scaled[OF c, of x] cos_sin_atan2_scaled[OF c, of z]
      cos_sin_atan2_pitch[of y]
    by (simp add: create_rotation_matrix_entries m mult.commute[of "sin z" "cos y"]
        mult.commute[of "cos z" "cos y"])
qed

lemma euler_singular:
  assumes "\<bar>cos y\<bar> < 1 / 10 ^ 6"
  shows "singular (create_rotation_matrix x y z)"
    and "rotation_matrix_to_euler (create_rotation_matrix x y z) =
      [atan2 (cos z * sin x - sin z * sin y * cos x) (sin z * sin y * sin x + cos z * cos x),
       atan2 (sin y) \<bar>cos y\<bar>, 0]"
proof -
  show s: "singular (create_rotation_matrix x y z)"
    using assms by (simp add: singular_def create_rotation_matrix_entries sy_of_rotation)
  show "rotation_matrix_to_euler (create_rotation_matrix x y z) =
      [atan2 (cos z * sin x - sin z * sin y * cos x) (sin z * sin y * sin x + cos z * cos x),
       atan2 (sin y) \<bar>cos y\<bar>, 0]"
    using s
    by (simp add: rotation_matrix_to_euler_def create_rotation_matrix_entries sy_of_rotation)
qed

lemma recomposed_singular:
  assumes small: "\<bar>cos y\<bar> < 1 / 10 ^ 6"
    and a: "a = cos z * sin x - sin z * sin y * cos x"
    and b: "b = sin z * sin y * sin x + cos z * cos x"
    and r: "r = sqrt (b\<^sup>2 + a\<^sup>2)"
  shows "recomposed x y z =
      [[\<bar>cos y\<bar>, sin y * (a / r), sin y * (b / r)],
       [0, b / r, - (a / r)],
       [- sin y, \<bar>cos y\<bar> * (a / r), \<bar>cos y\<bar> * (b / r)]]"
proof -
  have u: "(cos y)\<^sup>2 + (sin y)\<^sup>2 = 1" "(cos x)\<^sup>2 + (sin x)\<^sup>2 = 1"
    "(cos z)\<^sup>2 + (sin z)\<^sup>2 = 1"
    by simp_all
  have small': "\<bar>cos y\<bar> < 1 / 10 ^ 6" using small .
  have rpos: "0 < r"
    using band_norm(1)[OF u small' a b r] .
  have ne: "b \<noteq> 0 \<or> a \<noteq> 0"
  proof (rule ccontr)
    assume "\<not> (b \<noteq> 0 \<or> a \<noteq> 0)"
    then have "r = 0" unfolding r by simp
    then show False using rpos by simp
  qed
  have x': "cos (atan2 a b) = b / r" "sin (atan2 a b) = a / r"
    using cos_sin_atan2[OF ne] unfolding r by blast+
  have e: "rotation_matrix_to_euler (create_rotation_matrix x y z) =
      [atan2 a b, atan2 (sin y) \<bar>cos y\<bar>, 0]"
    unfolding a b by (rule euler_singular(2)[OF small])
  show ?thesis
    unfolding recomposed_def e
    using cos_sin_atan2_pitch[of y]
    by (simp add: create_rotation_matrix_entries x')
qed

lemma roundtrip_band:
  assumes small: "\<bar>cos y\<bar> < 1 / 10 ^ 6"
  shows "matrices_within (2 * \<bar>cos y\<bar>) (recomposed x y z) (create_rotation_matrix x y z)"
proof -
  define a where "a = cos z * sin x - sin z * sin y * cos x"
  define b where "b = sin z * sin y * sin x + cos z * cos x"
  define r where "r = sqrt (b\<^sup>2 + a\<^sup>2)"
  define p where "p = a / r"
  define q where "q = b / r"
  have u: "(cos y)\<^sup>2 + (sin y)\<^sup>2 = 1" "(cos x)\<^sup>2 + (sin x)\<^sup>2 = 1"
    "(cos z)\<^sup>2 + (sin z)\<^sup>2 = 1"
    by simp_all
  note bb = band_bounds[OF u small a_def b_def r_def p_def q_def]
  have rc: "recomposed x y z =
      [[\<bar>cos y\<bar>, sin y * p, sin y * q], [0, q, - p], [- sin y, \<bar>cos y\<bar> * p, \<bar>cos y\<bar> * q]]"
    unfolding p_def q_def by (rule recomposed_singular[OF small a_def b_def r_def])
  show ?thesis
    unfolding rc create_rotation_matrix_entries matrices_within_def
    using bb by simp
qed

lemma matrices_within_mono:
  assumes "matrices_within tol A B" and "tol \<le> tol'"
  shows "matrices_within tol' A B"
proof -
  have inner: "list_all2 (\<lambda>a b. \<bar>a - b\<bar> \<le> tol') r r'"
    if "list_all2 (\<lambda>a b. \<bar>a - b\<bar> \<le> tol) r r'" for r r' :: "real list"
    using that
  proof (rule list_all2_mono)
    fix a b :: real
    assume "\<bar>a - b\<bar> \<le> tol"
    then show "\<bar>a - b\<bar> \<le> tol'" using assms(2) by simp
  qed
  show ?thesis
    using assms(1) unfolding matrices_within_def
    by (rule list_all2_mono) (rule inner)
qed

lemma band_point:
  "cos (arccos (3 / 4000000)) = 3 / 4000000"
  "\<bar>cos (arccos (3 / 4000000))\<bar> < 1 / 10 ^ 6"
  by (simp_all add: cos_arccos)

lemma singular_band_point: "singular (create_rotation_matrix 0 (arccos (3 / 4000000)) pi)"
  by (rule euler_singular(1)[OF band_point(2)])

lemma not_within_band_point:
  "\<not> matrices_within (1 / 10 ^ 6) (recomposed 0 (arccos (3 / 4000000)) pi)
      (create_rotation_matrix 0 (arccos (3 / 4000000)) pi)"
  unfolding recomposed_singular[OF band_point(2) refl refl refl] create_rotation_matrix_entries
    matrices_within_def
  by (simp add: cos_arccos)

text \<open>
  C1, as stated, fails. The angle triple \<open>(0, pi, 0)\<close> lies in the stated range and is
  no gimbal-lock configuration (the singular branch is not taken), yet the decomposition
  of its matrix returns \<open>(pi, 0, pi)\<close>, a different triple for the same rotation. And
  near gimbal lock the recomposed matrix need not be the original one: at
  \<open>(0, arccos 0.00000075, pi)\<close> the singular branch is taken and the entry in row 0,
  column 0 of the recomposed matrix differs from the original by \<open>1.5e-6\<close>, more than
  the tolerance \<open>1e-6\<close>.
\<close>

theorem euler_roundtrip_counterexample:
  "\<not> roundtrip_within_tolerance 0 pi 0
   \<and> \<not> singular (create_rotation_matrix 0 pi 0)
   \<and> rotation_matrix_to_euler (create_rotation_matrix 0 pi 0) = [pi, 0, pi]
   \<and> \<not> roundtrip_within_tolerance 0 (arccos (3 / 4000000)) pi
   \<and> singular (create_rotation_matrix 0 (arccos (3 / 4000000)) pi)
   \<and> \<not> matrices_within (1 / 10 ^ 6) (recomposed 0 (arccos (3 / 4000000)) pi)
        (create_rotation_matrix 0 (arccos (3 / 4000000)) pi)"
proof -
  have one: "\<not> roundtrip_within_tolerance 0 pi 0"
    using pi_ge_two
    by (simp add: roundtrip_within_tolerance_def Let_def euler_at_pi not_singular_at_pi)
  have "recomposed 0 (arccos (3 / 4000000)) pi \<noteq> create_rotation_matrix 0 (arccos (3 / 4000000)) pi"
  proof
    assume eq: "recomposed 0 (arccos (3 / 4000000)) pi = create_rotation_matrix 0 (arccos (3 / 4000000)) pi"
    have "matrices_within (1 / 10 ^ 6) (create_rotation_matrix 0 (arccos (3 / 4000000)) pi)
        (create_rotation_matrix 0 (arccos (3 / 4000000)) pi)"
      unfolding create_rotation_matrix_entries matrices_within_def by simp
    then show False using not_within_band_point unfolding eq by blast
  qed
  then have two: "\<not> roundtrip_within_tolerance 0 (arccos (3 / 4000000)) pi"
    using singular_band_point
    by (simp add: roundtrip_within_tolerance_def Let_def recomposed_def)
  show ?thesis
    using one two not_singular_at_pi euler_at_pi singular_band_point not_within_band_point
    by blast
qed

text \<open>
  C1, amended. For \<open>x\<close> and \<open>z\<close> in the interval from \<open>- pi\<close> (excluded) to \<open>pi\<close>
  (included) and \<open>y\<close> strictly between \<open>- pi / 2\<close> and \<open>pi / 2\<close> with
  \<open>cos y \<ge> 1e-6\<close>, the decomposition of \<open>create_rotation_matrix x y z\<close> returns exactly
  \<open>(x, y, z)\<close>. For every triple with \<open>\<bar>cos y\<bar> \<ge> 1e-6\<close> the singular branch is not
  taken and the matrix recomposed from the returned angles is the original matrix. For
  every triple with \<open>\<bar>cos y\<bar> < 1e-6\<close> (\<open>y\<close> near \<open>pi / 2\<close> or \<open>- pi / 2\<close>) the
  singular branch is taken, the returned \<open>z\<close> is \<open>0\<close>, and every entry of the recomposed
  matrix is within \<open>2 * \<bar>cos y\<bar>\<close>, hence within \<open>2e-6\<close>, of the original entry; at
  \<open>y = pi / 2\<close> and \<open>y = - pi / 2\<close> the recomposed matrix is the original matrix.
\<close>

theorem euler_roundtrip_amended:
  "(- pi < x \<and> x \<le> pi \<and> - (pi / 2) < y \<and> y < pi / 2 \<and> 1 / 10 ^ 6 \<le> cos y
      \<and> - pi < z \<and> z \<le> pi
     \<longrightarrow> rotation_matrix_to_euler (create_rotation_matrix x y z) = [x, y, z])
   \<and> (1 / 10 ^ 6 \<le> \<bar>cos y\<bar>
     \<longrightarrow> \<not> singular (create_rotation_matrix x y z)
       \<and> recomposed x y z = create_rotation_matrix x y z)
   \<and> (\<bar>cos y\<bar> < 1 / 10 ^ 6
     \<longrightarrow> singular (create_rotation_matrix x y z)
       \<and> rotation_matrix_to_euler (create_rotation_matrix x y z) ! 2 = 0
       \<and> matrices_within (2 * \<bar>cos y\<bar>) (recomposed x y z) (create_rotation_matrix x y z)
       \<and> matrices_within (2 / 10 ^ 6) (recomposed x y z) (create_rotation_matrix x y z))
   \<and> (y = pi / 2 \<or> y = - (pi / 2)
     \<longrightarrow> singular (create_rotation_matrix x y z)
       \<and> recomposed x y z = create_rotation_matrix x y z)"
proof (intro conjI impI)
  assume h: "- pi < x \<and> x \<le> pi \<and> - (pi / 2) < y \<and> y < pi / 2 \<and> 1 / 10 ^ 6 \<le> cos y
      \<and> - pi < z \<and> z \<le> pi"
  then have "- pi < y" "y \<le> pi"
    using pi_gt_zero by linarith+
  then show "rotation_matrix_to_euler (create_rotation_matrix x y z) = [x, y, z]"
    using h by (intro roundtrip_regular) simp_all
next
  assume "1 / 10 ^ 6 \<le> \<bar>cos y\<bar>"
  then show "\<not> singular (create_rotation_matrix x y z)"
    by (rule recomposed_regular(1))
next
  assume "1 / 10 ^ 6 \<le> \<bar>cos y\<bar>"
  then show "recomposed x y z = create_rotation_matrix x y z"
    by (rule recomposed_regular(2))
next
  assume "\<bar>cos y\<bar> < 1 / 10 ^ 6"
  then show "singular (create_rotation_matrix x y z)"
    by (rule euler_singular(1))
next
  assume "\<bar>cos y\<bar> < 1 / 10 ^ 6"
  then show "rotation_matrix_to_euler (create_rotation_matrix x y z) ! 2 = 0"
    by (simp add: euler_singular(2))
next
  assume "\<bar>cos y\<bar> < 1 / 10 ^ 6"
  then show "matrices_within (2 * \<bar>cos y\<bar>) (recomposed x y z) (create_rotation_matrix x y z)"
    by (rule roundtrip_band)
next
  assume small: "\<bar>cos y\<bar> < 1 / 10 ^ 6"
  then have "2 * \<bar>cos y\<bar> \<le> 2 / 10 ^ 6" by simp
  then show "matrices_within (2 / 10 ^ 6) (recomposed x y z) (create_rotation_matrix x y z)"
    using roundtrip_band[OF small] matrices_within_mono by blast
next
  assume "y = pi / 2 \<or> y = - (pi / 2)"
  then show "singular (create_rotation_matrix x y z)"
    using roundtrip_gimbal_pos(1) roundtrip_gimbal_neg(1) by blast
next
  assume "y = pi / 2 \<or> y = - (pi / 2)"
  then show "recomposed x y z = create_rotation_matrix x y z"
    unfolding recomposed_def
    using roundtrip_gimbal_pos(2) roundtrip_gimbal_neg(2) by blast
qed

theorem euler_roundtrip_amended_witness:
  "rotation_matrix_to_euler (create_rotation_matrix 1 0 (- 1)) = [1, 0, - 1]
   \<and> \<not> singular (create_rotation_matrix 1 pi 2)
   \<and> recomposed 1 pi 2 = create_rotation_matrix 1 pi 2
   \<and> singular (create_rotation_matrix 1 (arccos (1 / 2000000)) 2)
   \<and> rotation_matrix_to_euler (create_rotation_matrix 1 (arccos (1 / 2000000)) 2) ! 2 = 0
   \<and> matrices_within (1 / 10 ^ 6) (recomposed 1 (arccos (1 / 2000000)) 2)
        (create_rotation_matrix 1 (arccos (1 / 2000000)) 2)
   \<and> singular (create_rotation_matrix 1 (pi / 2) 2)
   \<and> recomposed 1 (pi / 2) 2 = create_rotation_matrix 1 (pi / 2) 2"
proof -
  have one: "- pi < (1::real)" "(1::real) \<le> pi" "- pi < (- 1::real)" "(- 1::real) \<le> pi"
    using pi_ge_two by simp_all
  have regular: "rotation_matrix_to_euler (create_rotation_matrix 1 0 (- 1)) = [1, 0, - 1]"
    using euler_roundtrip_amended[where x = 1 and y = 0 and z = "- 1"] one by simp
  have flipped: "\<not> singular (create_rotation_matrix 1 pi 2)
      \<and> recomposed 1 pi 2 = create_rotation_matrix 1 pi 2"
    using euler_roundtrip_amended[where x = 1 and y = pi and z = 2] by simp
  have c: "cos (arccos (1 / 2000000)) = 1 / 2000000"
    by (simp add: cos_arccos)
  have band: "singular (create_rotation_matrix 1 (arccos (1 / 2000000)) 2)
      \<and> rotation_matrix_to_euler (create_rotation_matrix 1 (arccos (1 / 2000000)) 2) ! 2 = 0
      \<and> matrices_within (1 / 10 ^ 6) (recomposed 1 (arccos (1 / 2000000)) 2)
        (create_rotation_matrix 1 (arccos (1 / 2000000)) 2)"
    using euler_roundtrip_amended[where x = 1 and y = "arccos (1 / 2000000)" and z = 2]
    unfolding c by simp
  have gimbal: "singular (create_rotation_matrix 1 (pi / 2) 2)
      \<and> recomposed 1 (pi / 2) 2 = create_rotation_matrix 1 (pi / 2) 2"
    using euler_roundtrip_amended[where x = 1 and y = "pi / 2" and z = 2] by blast
  show ?thesis using regular flipped band gimbal by blast
qed

section \<open>FSpyParser.parse: lemmas\<close>

lemma parse_failed_simps:
  "returned (parse_failed self pos calls e) = False"
  "self_after (parse_failed self pos calls e) = self"
  "file_pos (parse_failed self pos calls e) = pos"
  "log_calls (parse_failed self pos calls e) = calls @ [(Error, Failed_to_parse e)]"
  by (simp_all add: parse_failed_def)


text \<open>Whatever \<open>set_debug_level\<close> is given, errors are printed.\<close>

lemma error_level_enabled: "set_debug_level trace debug_flag DEBUG_LEVELS Error"
  by (simp add: set_debug_level_def DEBUG_LEVELS_def)






text \<open>The first four bytes are not the magic.\<close>

lemma parse_wrong_magic_outcome:
  assumes "files (filepath self) = Some f" and "take 4 f \<noteq> ''fspy''"
  shows "parse loads read_error files self =
     parse_failed self (min 4 (length f)) [(Trace, Opening_file), (Trace, File_ID (take 4 f))]
       (ValueError ''Invalid fSpy file format'')"
proof -
  have r: "f_read f 0 4 = take 4 f" by (simp add: f_read_def)
  have t: "f_tell f 0 4 = min 4 (length f)" by (simp add: f_tell_def)
  show ?thesis
    unfolding parse_def Let_def assms(1) option.case r t
    using assms(2) by (simp only: if_True append.simps not_False_eq_True)
qed







text \<open>
  C3: when the file opens and its first four bytes are not \<open>fspy\<close>, \<open>parse\<close> returns
  \<open>False\<close> (it raises nothing to its caller), has read no more than those four bytes
  when the file is closed, leaves the parser object unchanged, and reports one error, the
  \<open>ValueError\<close> "Invalid fSpy file format".
\<close>

theorem parse_bad_magic:
  assumes "files (filepath self) = Some f" and "take 4 f \<noteq> ''fspy''"
  shows "returned (parse loads read_error files self) = False
       \<and> file_pos (parse loads read_error files self) = min 4 (length f)
       \<and> file_pos (parse loads read_error files self) \<le> 4
       \<and> self_after (parse loads read_error files self) = self
       \<and> error_calls (log_calls (parse loads read_error files self))
           = [(Error, Failed_to_parse (ValueError ''Invalid fSpy file format''))]
       \<and> printed DEBUG_LEVELS (log_calls (parse loads read_error files self))
           = [(Error, Failed_to_parse (ValueError ''Invalid fSpy file format''))]"
  unfolding parse_wrong_magic_outcome[where files = files and self = self, OF assms]
  by (simp add: parse_failed_simps error_calls_def printed_def DEBUG_LEVELS_def)

theorem parse_bad_magic_witness:
  "returned (parse (\<lambda>b. Inr JNull) (\<lambda>p n. None) (\<lambda>p. Some ''fSpy-not-a-container'')
      (FSpyParser_init ''scene.fspy'')) = False
   \<and> file_pos (parse (\<lambda>b. Inr JNull) (\<lambda>p n. None) (\<lambda>p. Some ''fSpy-not-a-container'')
      (FSpyParser_init ''scene.fspy'')) = 4
   \<and> printed DEBUG_LEVELS (log_calls (parse (\<lambda>b. Inr JNull) (\<lambda>p n. None)
      (\<lambda>p. Some ''fSpy-not-a-container'') (FSpyParser_init ''scene.fspy'')))
       = [(Error, Failed_to_parse (ValueError ''Invalid fSpy file format''))]"
  using parse_bad_magic[where files = "\<lambda>p. Some ''fSpy-not-a-container''"
      and self = "FSpyParser_init ''scene.fspy''" and f = "''fSpy-not-a-container''"
      and loads = "\<lambda>b. Inr JNull" and read_error = "\<lambda>p n. None"]
  by simp







section \<open>FSpyParser.get_camera_transform: lemmas\<close>

lemma bind_exn_simps:
  "bind_exn (Inr x) f = f x"
  "bind_exn (Inl e) f = Inl e"
  by (simp_all add: bind_exn_def)

lemma to_matrix_numbers:
  assumes "numpy = None \<or> all_numbers [[a, b, c], [d, e, f], [g, h, i]]"
  shows "to_matrix numpy [[a, b, c], [d, e, f], [g, h, i]] = Inr [[a, b, c], [d, e, f], [g, h, i]]"
  using assms by (cases numpy) (auto simp: to_matrix_def Matrix3x3_rows)

lemma rows_ok:
  assumes "4 \<le> length r0" "4 \<le> length r1" "4 \<le> length r2"
    and "numpy = None
       \<or> all_numbers [[r0 ! 0, r0 ! 1, r0 ! 2], [r1 ! 0, r1 ! 1, r1 ! 2], [r2 ! 0, r2 ! 1, r2 ! 2]]"
  shows "position_and_rotation numpy (JArr (JArr r0 # JArr r1 # JArr r2 # rest))
     = Inr ([r0 ! 3, r1 ! 3, r2 ! 3],
            [[r0 ! 0, r0 ! 1, r0 ! 2], [r1 ! 0, r1 ! 1, r1 ! 2], [r2 ! 0, r2 ! 1, r2 ! 2]])"
proof -
  have "sequence_exn (map (\<lambda>i. sequence_exn
            (map (\<lambda>j. py_index2 (JArr (JArr r0 # JArr r1 # JArr r2 # rest)) i j) [0..<3]))
          [0..<3])
      = Inr [[r0 ! 0, r0 ! 1, r0 ! 2], [r1 ! 0, r1 ! 1, r1 ! 2], [r2 ! 0, r2 ! 1, r2 ! 2]]"
    using assms(1-3) by (auto simp: py_index2_def bind_exn_simps upt3)
  moreover have "sequence_exn [py_index2 (JArr (JArr r0 # JArr r1 # JArr r2 # rest)) 0 3,
        py_index2 (JArr (JArr r0 # JArr r1 # JArr r2 # rest)) 1 3,
        py_index2 (JArr (JArr r0 # JArr r1 # JArr r2 # rest)) 2 3] = Inr [r0 ! 3, r1 ! 3, r2 ! 3]"
    using assms(1-3) by (auto simp: py_index2_def bind_exn_simps)
  ultimately show ?thesis
    unfolding position_and_rotation_def
    by (simp only: bind_exn_simps to_matrix_numbers[OF assms(4)])
qed

lemma rows_default:
  "position_and_rotation numpy identity_rows
     = Inr ([JNum 0, JNum 0, JNum 0],
            [[JNum 1, JNum 0, JNum 0], [JNum 0, JNum 1, JNum 0], [JNum 0, JNum 0, JNum 1]])"
  unfolding identity_rows_def by (subst rows_ok) (simp_all add: all_numbers_def)

text \<open>With numpy, a conversion that raises makes the whole block raise.\<close>

lemma rows_numpy_raises:
  assumes "4 \<le> length r0" "4 \<le> length r1" "4 \<le> length r2"
    and "\<not> all_numbers [[r0 ! 0, r0 ! 1, r0 ! 2], [r1 ! 0, r1 ! 1, r1 ! 2], [r2 ! 0, r2 ! 1, r2 ! 2]]"
    and "np_array [[r0 ! 0, r0 ! 1, r0 ! 2], [r1 ! 0, r1 ! 1, r1 ! 2], [r2 ! 0, r2 ! 1, r2 ! 2]]
          = Inl e"
  shows "position_and_rotation (Some np_array) (JArr (JArr r0 # JArr r1 # JArr r2 # rest)) = Inl e"
proof -
  have "sequence_exn (map (\<lambda>i. sequence_exn
            (map (\<lambda>j. py_index2 (JArr (JArr r0 # JArr r1 # JArr r2 # rest)) i j) [0..<3]))
          [0..<3])
      = Inr [[r0 ! 0, r0 ! 1, r0 ! 2], [r1 ! 0, r1 ! 1, r1 ! 2], [r2 ! 0, r2 ! 1, r2 ! 2]]"
    using assms(1-3) by (auto simp: py_index2_def bind_exn_simps upt3)
  moreover have "sequence_exn [py_index2 (JArr (JArr r0 # JArr r1 # JArr r2 # rest)) 0 3,
        py_index2 (JArr (JArr r0 # JArr r1 # JArr r2 # rest)) 1 3,
        py_index2 (JArr (JArr r0 # JArr r1 # JArr r2 # rest)) 2 3] = Inr [r0 ! 3, r1 ! 3, r2 ! 3]"
    using assms(1-3) by (auto simp: py_index2_def bind_exn_simps)
  moreover have "to_matrix (Some np_array)
        [[r0 ! 0, r0 ! 1, r0 ! 2], [r1 ! 0, r1 ! 1, r1 ! 2], [r2 ! 0, r2 ! 1, r2 ! 2]] = Inl e"
    using assms(4,5) by (simp add: to_matrix_def)
  ultimately show ?thesis
    unfolding position_and_rotation_def by (simp only: bind_exn_simps)
qed

lemma sequence_exn_fails:
  "Inl e \<in> set ms \<Longrightarrow> \<exists>e'. sequence_exn ms = Inl e'"
proof (induction ms)
  case Nil
  then show ?case by simp
next
  case (Cons m ms)
  show ?case
  proof (cases m)
    case (Inl a)
    then show ?thesis by (simp add: bind_exn_simps)
  next
    case (Inr x)
    then have "Inl e \<in> set ms" using Cons.prems by auto
    then obtain e' where "sequence_exn ms = Inl e'" using Cons.IH by blast
    then show ?thesis using Inr by (simp add: bind_exn_simps)
  qed
qed

text \<open>A missing row among the first three, or one with fewer than four entries, raises.\<close>

lemma rows_short:
  assumes "length rws < 3 \<or> (\<exists>i<3. \<exists>r. rws ! i = JArr r \<and> length r < 4)"
  shows "\<exists>e. position_and_rotation numpy (JArr rws) = Inl e"
proof -
  have "\<exists>i<3. py_index2 (JArr rws) i 3 = Inl IndexError"
    using assms
  proof
    assume "length rws < 3"
    then have "py_index2 (JArr rws) 2 3 = Inl IndexError"
      by (simp add: py_index2_def bind_exn_simps)
    then show ?thesis by (intro exI[of _ 2]) simp
  next
    assume "\<exists>i<3. \<exists>r. rws ! i = JArr r \<and> length r < 4"
    then obtain i r where i: "i < 3" "rws ! i = JArr r" "length r < 4" by blast
    then have "py_index2 (JArr rws) i 3 = Inl IndexError"
      by (simp add: py_index2_def bind_exn_simps)
    then show ?thesis using i(1) by blast
  qed
  then obtain i where "i < 3" "py_index2 (JArr rws) i 3 = Inl IndexError" by blast
  then have "Inl IndexError \<in> set [py_index2 (JArr rws) 0 3, py_index2 (JArr rws) 1 3,
            py_index2 (JArr rws) 2 3]"
    by (cases "i = 0"; cases "i = 1"; cases "i = 2") auto
  then obtain e where "sequence_exn [py_index2 (JArr rws) 0 3, py_index2 (JArr rws) 1 3,
            py_index2 (JArr rws) 2 3] = Inl e"
    using sequence_exn_fails by blast
  then show ?thesis by (simp add: position_and_rotation_def bind_exn_simps)
qed

lemma try_no_parameters:
  assumes "map_of st ''cameraParameters'' = None
     \<or> (\<exists>v. map_of st ''cameraParameters'' = Some v \<and> \<not> truthy v)"
  shows "get_camera_transform_try numpy (JObj st) = Inl (ValueError ''No camera parameters found'')"
  using assms by (auto simp: get_camera_transform_try_def bind_exn_simps)

lemma try_default_rows:
  assumes "map_of st ''cameraParameters'' = Some (JObj ps)" and "ps \<noteq> []"
    and "map_of ps ''cameraTransform'' = None
       \<or> (\<exists>ts. map_of ps ''cameraTransform'' = Some (JObj ts) \<and> map_of ts ''rows'' = None)"
  shows "get_camera_transform_try numpy (JObj st) =
     Inr ([JNum 0, JNum 0, JNum 0],
          [[JNum 1, JNum 0, JNum 0], [JNum 0, JNum 1, JNum 0], [JNum 0, JNum 0, JNum 1]])"
  using assms(3)
proof
  assume "map_of ps ''cameraTransform'' = None"
  then show ?thesis
    unfolding get_camera_transform_try_def using assms(1,2)
    by (simp add: bind_exn_simps rows_default)
next
  assume "\<exists>ts. map_of ps ''cameraTransform'' = Some (JObj ts) \<and> map_of ts ''rows'' = None"
  then obtain ts where "map_of ps ''cameraTransform'' = Some (JObj ts)" "map_of ts ''rows'' = None"
    by blast
  then show ?thesis
    unfolding get_camera_transform_try_def using assms(1,2)
    by (simp add: bind_exn_simps rows_default)
qed

text \<open>A \<open>cameraParameters\<close> or a \<open>cameraTransform\<close> that is no mapping has no \<open>get\<close>.\<close>

lemma try_not_a_mapping:
  assumes "map_of st ''cameraParameters'' = Some cp" and "truthy cp"
    and "\<not> (\<exists>ps. cp = JObj ps \<and> (map_of ps ''cameraTransform'' = None
                \<or> (\<exists>ts. map_of ps ''cameraTransform'' = Some (JObj ts))))"
  shows "get_camera_transform_try numpy (JObj st) = Inl AttributeError"
proof (cases cp)
  case (JObj ps)
  then obtain v where v: "map_of ps ''cameraTransform'' = Some v" "\<forall>ts. v \<noteq> JObj ts"
    using assms(3) by (cases "map_of ps ''cameraTransform''") auto
  then have "py_get v ''rows'' identity_rows = Inl AttributeError"
    by (cases v) simp_all
  then show ?thesis
    unfolding get_camera_transform_try_def using assms(1,2) JObj v(1)
    by (simp add: bind_exn_simps)
qed (use assms(1,2) in \<open>simp_all add: get_camera_transform_try_def bind_exn_simps\<close>)

lemma try_given_rows:
  assumes "map_of st ''cameraParameters'' = Some (JObj ps)" and "ps \<noteq> []"
    and "map_of ps ''cameraTransform'' = Some (JObj ts)"
    and "map_of ts ''rows'' = Some (JArr (JArr r0 # JArr r1 # JArr r2 # rest))"
    and "4 \<le> length r0" "4 \<le> length r1" "4 \<le> length r2"
    and "numpy = None
       \<or> all_numbers [[r0 ! 0, r0 ! 1, r0 ! 2], [r1 ! 0, r1 ! 1, r1 ! 2], [r2 ! 0, r2 ! 1, r2 ! 2]]"
  shows "get_camera_transform_try numpy (JObj st) =
     Inr ([r0 ! 3, r1 ! 3, r2 ! 3],
          [[r0 ! 0, r0 ! 1, r0 ! 2], [r1 ! 0, r1 ! 1, r1 ! 2], [r2 ! 0, r2 ! 1, r2 ! 2]])"
  unfolding get_camera_transform_try_def using assms(1-4)
  by (simp add: bind_exn_simps rows_ok[OF assms(5-8)])

lemma try_numpy_raises:
  assumes "map_of st ''cameraParameters'' = Some (JObj ps)" and "ps \<noteq> []"
    and "map_of ps ''cameraTransform'' = Some (JObj ts)"
    and "map_of ts ''rows'' = Some (JArr (JArr r0 # JArr r1 # JArr r2 # rest))"
    and "4 \<le> length r0" "4 \<le> length r1" "4 \<le> length r2"
    and "\<not> all_numbers [[r0 ! 0, r0 ! 1, r0 ! 2], [r1 ! 0, r1 ! 1, r1 ! 2], [r2 ! 0, r2 ! 1, r2 ! 2]]"
    and "np_array [[r0 ! 0, r0 ! 1, r0 ! 2], [r1 ! 0, r1 ! 1, r1 ! 2], [r2 ! 0, r2 ! 1, r2 ! 2]]
          = Inl e"
  shows "get_camera_transform_try (Some np_array) (JObj st) = Inl e"
  unfolding get_camera_transform_try_def using assms(1-4)
  by (simp add: bind_exn_simps rows_numpy_raises[where np_array = np_array, OF assms(5-9)])

lemma try_short_rows:
  assumes "map_of st ''cameraParameters'' = Some (JObj ps)" and "ps \<noteq> []"
    and "map_of ps ''cameraTransform'' = Some (JObj ts)"
    and "map_of ts ''rows'' = Some (JArr rws)"
    and "length rws < 3 \<or> (\<exists>i<3. \<exists>r. rws ! i = JArr r \<and> length r < 4)"
  shows "\<exists>e. get_camera_transform_try numpy (JObj st) = Inl e"
  unfolding get_camera_transform_try_def using assms(1-4) rows_short[OF assms(5), of numpy]
  by (simp add: bind_exn_simps)

text \<open>
  C5, as stated, fails: with \<open>cameraParameters\<close> the non-empty mapping
  \<open>{cameraTransform: null}\<close> there is no \<open>cameraTransform.rows\<close>, yet
  \<open>transform.get\<close> raises an \<open>AttributeError\<close> and the method returns \<open>None\<close>, with or
  without numpy.
\<close>

theorem get_camera_transform_null_transform_counterexample:
  "truthy (JObj [(''cameraTransform'', JNull)])
   \<and> get_camera_transform_try None
        (JObj [(''cameraParameters'', JObj [(''cameraTransform'', JNull)])])
      = Inl AttributeError
   \<and> get_camera_transform None ((FSpyParser_init ''scene.fspy'')
        \<lparr>state_data := JObj [(''cameraParameters'', JObj [(''cameraTransform'', JNull)])]\<rparr>)
      = None
   \<and> get_camera_transform (Some (\<lambda>m. Inr m)) ((FSpyParser_init ''scene.fspy'')
        \<lparr>state_data := JObj [(''cameraParameters'', JObj [(''cameraTransform'', JNull)])]\<rparr>)
      = None"
  by (simp add: get_camera_transform_def get_camera_transform_try_def bind_exn_simps)

text \<open>
  C5, amended: on a parsed state in which \<open>cameraParameters\<close> is present and true (not
  empty) and there is no \<open>cameraTransform.rows\<close>, \<open>get_camera_transform\<close> returns the
  position \<open>(0, 0, 0)\<close> and the 3x3 identity when \<open>cameraParameters\<close> is a mapping and
  \<open>cameraTransform\<close> is absent or is a mapping, and returns \<open>None\<close> otherwise (when
  \<open>cameraParameters\<close> or \<open>cameraTransform\<close> is present but is no mapping); with or
  without numpy.
\<close>

theorem get_camera_transform_missing_rows:
  assumes "state_data self = JObj st"
    and "map_of st ''cameraParameters'' = Some cp" and "truthy cp"
    and "\<forall>ps ts. cp = JObj ps \<and> map_of ps ''cameraTransform'' = Some (JObj ts)
           \<longrightarrow> map_of ts ''rows'' = None"
  shows "((\<exists>ps. cp = JObj ps \<and> (map_of ps ''cameraTransform'' = None
                \<or> (\<exists>ts. map_of ps ''cameraTransform'' = Some (JObj ts))))
          \<longrightarrow> get_camera_transform numpy self =
                Some ([JNum 0, JNum 0, JNum 0],
                      [[JNum 1, JNum 0, JNum 0], [JNum 0, JNum 1, JNum 0],
                       [JNum 0, JNum 0, JNum 1]]))
       \<and> (\<not> (\<exists>ps. cp = JObj ps \<and> (map_of ps ''cameraTransform'' = None
                \<or> (\<exists>ts. map_of ps ''cameraTransform'' = Some (JObj ts))))
          \<longrightarrow> get_camera_transform numpy self = None)"
proof (intro conjI impI)
  assume "\<exists>ps. cp = JObj ps \<and> (map_of ps ''cameraTransform'' = None
                \<or> (\<exists>ts. map_of ps ''cameraTransform'' = Some (JObj ts)))"
  then obtain ps where ps: "cp = JObj ps" "map_of ps ''cameraTransform'' = None
                \<or> (\<exists>ts. map_of ps ''cameraTransform'' = Some (JObj ts))"
    by blast
  have ne: "ps \<noteq> []" using assms(3) ps(1) by simp
  have "map_of ps ''cameraTransform'' = None
       \<or> (\<exists>ts. map_of ps ''cameraTransform'' = Some (JObj ts) \<and> map_of ts ''rows'' = None)"
    using ps assms(4) by blast
  then have "get_camera_transform_try numpy (JObj st) =
     Inr ([JNum 0, JNum 0, JNum 0],
          [[JNum 1, JNum 0, JNum 0], [JNum 0, JNum 1, JNum 0], [JNum 0, JNum 0, JNum 1]])"
    using try_default_rows[of st ps numpy] assms(2) ps(1) ne by simp
  then show "get_camera_transform numpy self =
                Some ([JNum 0, JNum 0, JNum 0],
                      [[JNum 1, JNum 0, JNum 0], [JNum 0, JNum 1, JNum 0],
                       [JNum 0, JNum 0, JNum 1]])"
    using assms(1) by (simp add: get_camera_transform_def)
next
  assume "\<not> (\<exists>ps. cp = JObj ps \<and> (map_of ps ''cameraTransform'' = None
                \<or> (\<exists>ts. map_of ps ''cameraTransform'' = Some (JObj ts))))"
  then have "get_camera_transform_try numpy (JObj st) = Inl AttributeError"
    using try_not_a_mapping[OF assms(2,3)] by blast
  then show "get_camera_transform numpy self = None"
    using assms(1) by (simp add: get_camera_transform_def)
qed

theorem get_camera_transform_missing_rows_witness:
  "get_camera_transform None
     ((FSpyParser_init ''scene.fspy'')
        \<lparr>state_data := JObj [(''cameraParameters'', JObj [(''imageWidth'', JNum 1920)])]\<rparr>)
     = Some ([JNum 0, JNum 0, JNum 0],
           [[JNum 1, JNum 0, JNum 0], [JNum 0, JNum 1, JNum 0], [JNum 0, JNum 0, JNum 1]])
   \<and> get_camera_transform (Some (\<lambda>m. Inl (ValueError ''inhomogeneous'')))
     ((FSpyParser_init ''scene.fspy'')
        \<lparr>state_data := JObj [(''cameraParameters'',
            JObj [(''cameraTransform'', JObj [(''columns'', JArr [])])])]\<rparr>)
     = Some ([JNum 0, JNum 0, JNum 0],
           [[JNum 1, JNum 0, JNum 0], [JNum 0, JNum 1, JNum 0], [JNum 0, JNum 0, JNum 1]])
   \<and> get_camera_transform None
     ((FSpyParser_init ''scene.fspy'')
        \<lparr>state_data := JObj [(''cameraParameters'', JObj [(''cameraTransform'', JStr ''none'')])]\<rparr>)
     = None"
proof -
  let ?P = "\<lambda>s. (FSpyParser_init ''scene.fspy'')\<lparr>state_data := s\<rparr>"
  have a: "get_camera_transform None
       (?P (JObj [(''cameraParameters'', JObj [(''imageWidth'', JNum 1920)])]))
     = Some ([JNum 0, JNum 0, JNum 0],
           [[JNum 1, JNum 0, JNum 0], [JNum 0, JNum 1, JNum 0], [JNum 0, JNum 0, JNum 1]])"
    using get_camera_transform_missing_rows[where
        self = "?P (JObj [(''cameraParameters'', JObj [(''imageWidth'', JNum 1920)])])"
        and st = "[(''cameraParameters'', JObj [(''imageWidth'', JNum 1920)])]"
        and cp = "JObj [(''imageWidth'', JNum 1920)]" and numpy = None, THEN conjunct1]
    by simp
  have b: "get_camera_transform (Some (\<lambda>m. Inl (ValueError ''inhomogeneous'')))
       (?P (JObj [(''cameraParameters'',
            JObj [(''cameraTransform'', JObj [(''columns'', JArr [])])])]))
     = Some ([JNum 0, JNum 0, JNum 0],
           [[JNum 1, JNum 0, JNum 0], [JNum 0, JNum 1, JNum 0], [JNum 0, JNum 0, JNum 1]])"
    using get_camera_transform_missing_rows[where
        self = "?P (JObj [(''cameraParameters'',
            JObj [(''cameraTransform'', JObj [(''columns'', JArr [])])])])"
        and st = "[(''cameraParameters'', JObj [(''cameraTransform'', JObj [(''columns'', JArr [])])])]"
        and cp = "JObj [(''cameraTransform'', JObj [(''columns'', JArr [])])]"
        and numpy = "Some (\<lambda>m. Inl (ValueError ''inhomogeneous''))", THEN conjunct1]
    by simp
  have c: "get_camera_transform None
       (?P (JObj [(''cameraParameters'', JObj [(''cameraTransform'', JStr ''none'')])]))
     = None"
    using get_camera_transform_missing_rows[where
        self = "?P (JObj [(''cameraParameters'', JObj [(''cameraTransform'', JStr ''none'')])])"
        and st = "[(''cameraParameters'', JObj [(''cameraTransform'', JStr ''none'')])]"
        and cp = "JObj [(''cameraTransform'', JStr ''none'')]" and numpy = None, THEN conjunct2]
    by simp
  show ?thesis using a b c by simp
qed

text \<open>
  C6, as stated, fails: with \<open>cameraParameters\<close> present and empty the derivation fails,
  and with \<open>cameraParameters\<close> present and \<open>rows\<close> an empty list it fails too.
\<close>

theorem get_camera_transform_counterexample:
  "map_of [(''cameraParameters'', JObj [])] ''cameraParameters'' = Some (JObj [])
   \<and> get_camera_transform None
        ((FSpyParser_init ''scene.fspy'')\<lparr>state_data := JObj [(''cameraParameters'', JObj [])]\<rparr>)
      = None
   \<and> get_camera_transform None
        ((FSpyParser_init ''scene.fspy'')\<lparr>state_data := JObj [(''cameraParameters'',
            JObj [(''cameraTransform'', JObj [(''rows'', JArr [])])])]\<rparr>)
      = None"
  by (simp add: get_camera_transform_def get_camera_transform_try_def bind_exn_simps
      position_and_rotation_def py_index2_def)

text \<open>
  C6, amended: \<open>get_camera_transform\<close> never raises. On a state that is a mapping:
  it fails (returns \<open>None\<close>, the cause being the \<open>ValueError\<close> "No camera parameters
  found") when \<open>cameraParameters\<close> is absent or is empty or otherwise false. When
  \<open>cameraParameters\<close> is a non-empty mapping, it succeeds with the identity default
  when \<open>cameraTransform\<close> is absent or is a mapping without \<open>rows\<close>. When \<open>rows\<close> is a
  list whose first three rows are lists of at least four entries, it succeeds with
  position \<open>rows[i][3]\<close> and rotation \<open>rows[i][j]\<close> (\<open>i, j < 3\<close>), provided numpy is
  absent or the nine rotation entries are numbers; with numpy, if \<open>np.array\<close> raises on
  the nine entries, it fails. It fails when \<open>rows\<close> is a list with fewer than three rows
  or with one of its first three rows a list of fewer than four entries.
\<close>

theorem get_camera_transform_amended:
  assumes "state_data self = JObj st"
  shows "(map_of st ''cameraParameters'' = None
            \<or> (\<exists>v. map_of st ''cameraParameters'' = Some v \<and> \<not> truthy v)
          \<longrightarrow> get_camera_transform_try numpy (state_data self)
                = Inl (ValueError ''No camera parameters found'')
              \<and> get_camera_transform numpy self = None)
       \<and> (\<forall>ps. map_of st ''cameraParameters'' = Some (JObj ps) \<and> ps \<noteq> []
              \<and> (map_of ps ''cameraTransform'' = None
                 \<or> (\<exists>ts. map_of ps ''cameraTransform'' = Some (JObj ts)
                        \<and> map_of ts ''rows'' = None))
          \<longrightarrow> get_camera_transform numpy self =
                Some ([JNum 0, JNum 0, JNum 0],
                      [[JNum 1, JNum 0, JNum 0], [JNum 0, JNum 1, JNum 0],
                       [JNum 0, JNum 0, JNum 1]]))
       \<and> (\<forall>ps ts r0 r1 r2 rest.
              map_of st ''cameraParameters'' = Some (JObj ps) \<and> ps \<noteq> []
              \<and> map_of ps ''cameraTransform'' = Some (JObj ts)
              \<and> map_of ts ''rows'' = Some (JArr (JArr r0 # JArr r1 # JArr r2 # rest))
              \<and> 4 \<le> length r0 \<and> 4 \<le> length r1 \<and> 4 \<le> length r2
              \<and> (numpy = None
                 \<or> all_numbers [[r0 ! 0, r0 ! 1, r0 ! 2], [r1 ! 0, r1 ! 1, r1 ! 2],
                                 [r2 ! 0, r2 ! 1, r2 ! 2]])
          \<longrightarrow> get_camera_transform numpy self =
                Some ([r0 ! 3, r1 ! 3, r2 ! 3],
                      [[r0 ! 0, r0 ! 1, r0 ! 2], [r1 ! 0, r1 ! 1, r1 ! 2],
                       [r2 ! 0, r2 ! 1, r2 ! 2]]))
       \<and> (\<forall>ps ts r0 r1 r2 rest np_array e.
              map_of st ''cameraParameters'' = Some (JObj ps) \<and> ps \<noteq> []
              \<and> map_of ps ''cameraTransform'' = Some (JObj ts)
              \<and> map_of ts ''rows'' = Some (JArr (JArr r0 # JArr r1 # JArr r2 # rest))
              \<and> 4 \<le> length r0 \<and> 4 \<le> length r1 \<and> 4 \<le> length r2
              \<and> numpy = Some np_array
              \<and> \<not> all_numbers [[r0 ! 0, r0 ! 1, r0 ! 2], [r1 ! 0, r1 ! 1, r1 ! 2],
                                 [r2 ! 0, r2 ! 1, r2 ! 2]]
              \<and> np_array [[r0 ! 0, r0 ! 1, r0 ! 2], [r1 ! 0, r1 ! 1, r1 ! 2],
                           [r2 ! 0, r2 ! 1, r2 ! 2]] = Inl e
          \<longrightarrow> get_camera_transform numpy self = None)
       \<and> (\<forall>ps ts rws.
              map_of st ''cameraParameters'' = Some (JObj ps) \<and> ps \<noteq> []
              \<and> map_of ps ''cameraTransform'' = Some (JObj ts)
              \<and> map_of ts ''rows'' = Some (JArr rws)
              \<and> (length rws < 3 \<or> (\<exists>i<3. \<exists>r. rws ! i = JArr r \<and> length r < 4))
          \<longrightarrow> get_camera_transform numpy self = None)"
proof (intro conjI allI impI)
  assume "map_of st ''cameraParameters'' = None
            \<or> (\<exists>v. map_of st ''cameraParameters'' = Some v \<and> \<not> truthy v)"
  then have t: "get_camera_transform_try numpy (JObj st)
      = Inl (ValueError ''No camera parameters found'')"
    by (rule try_no_parameters)
  show "get_camera_transform_try numpy (state_data self)
      = Inl (ValueError ''No camera parameters found'')"
    using t assms by simp
  show "get_camera_transform numpy self = None"
    using t assms by (simp add: get_camera_transform_def)
next
  fix ps
  assume "map_of st ''cameraParameters'' = Some (JObj ps) \<and> ps \<noteq> []
              \<and> (map_of ps ''cameraTransform'' = None
                 \<or> (\<exists>ts. map_of ps ''cameraTransform'' = Some (JObj ts)
                        \<and> map_of ts ''rows'' = None))"
  then show "get_camera_transform numpy self =
                Some ([JNum 0, JNum 0, JNum 0],
                      [[JNum 1, JNum 0, JNum 0], [JNum 0, JNum 1, JNum 0],
                       [JNum 0, JNum 0, JNum 1]])"
    using try_default_rows[of st ps numpy] assms by (simp add: get_camera_transform_def)
next
  fix ps ts r0 r1 r2 rest
  assume "map_of st ''cameraParameters'' = Some (JObj ps) \<and> ps \<noteq> []
              \<and> map_of ps ''cameraTransform'' = Some (JObj ts)
              \<and> map_of ts ''rows'' = Some (JArr (JArr r0 # JArr r1 # JArr r2 # rest))
              \<and> 4 \<le> length r0 \<and> 4 \<le> length r1 \<and> 4 \<le> length r2
              \<and> (numpy = None
                 \<or> all_numbers [[r0 ! 0, r0 ! 1, r0 ! 2], [r1 ! 0, r1 ! 1, r1 ! 2],
                                 [r2 ! 0, r2 ! 1, r2 ! 2]])"
  then show "get_camera_transform numpy self =
                Some ([r0 ! 3, r1 ! 3, r2 ! 3],
                      [[r0 ! 0, r0 ! 1, r0 ! 2], [r1 ! 0, r1 ! 1, r1 ! 2],
                       [r2 ! 0, r2 ! 1, r2 ! 2]])"
    using try_given_rows[of st ps ts r0 r1 r2 rest numpy] assms
    by (simp add: get_camera_transform_def)
next
  fix ps ts r0 r1 r2 rest np_array e
  assume "map_of st ''cameraParameters'' = Some (JObj ps) \<and> ps \<noteq> []
              \<and> map_of ps ''cameraTransform'' = Some (JObj ts)
              \<and> map_of ts ''rows'' = Some (JArr (JArr r0 # JArr r1 # JArr r2 # rest))
              \<and> 4 \<le> length r0 \<and> 4 \<le> length r1 \<and> 4 \<le> length r2
              \<and> numpy = Some np_array
              \<and> \<not> all_numbers [[r0 ! 0, r0 ! 1, r0 ! 2], [r1 ! 0, r1 ! 1, r1 ! 2],
                                 [r2 ! 0, r2 ! 1, r2 ! 2]]
              \<and> np_array [[r0 ! 0, r0 ! 1, r0 ! 2], [r1 ! 0, r1 ! 1, r1 ! 2],
                           [r2 ! 0, r2 ! 1, r2 ! 2]] = Inl e"
  then show "get_camera_transform numpy self = None"
    using try_numpy_raises[of st ps ts r0 r1 r2 rest np_array e] assms
    by (simp add: get_camera_transform_def)
next
  fix ps ts rws
  assume "map_of st ''cameraParameters'' = Some (JObj ps) \<and> ps \<noteq> []
              \<and> map_of ps ''cameraTransform'' = Some (JObj ts)
              \<and> map_of ts ''rows'' = Some (JArr rws)
              \<and> (length rws < 3 \<or> (\<exists>i<3. \<exists>r. rws ! i = JArr r \<and> length r < 4))"
  then obtain e where "get_camera_transform_try numpy (JObj st) = Inl e"
    using try_short_rows[of st ps ts rws numpy] by blast
  then show "get_camera_transform numpy self = None"
    using assms by (simp add: get_camera_transform_def)
qed

theorem get_camera_transform_amended_witness:
  "get_camera_transform None ((FSpyParser_init ''scene.fspy'')\<lparr>state_data := JObj []\<rparr>) = None
   \<and> get_camera_transform None ((FSpyParser_init ''scene.fspy'')
        \<lparr>state_data := JObj [(''cameraParameters'', JObj [(''imageWidth'', JNum 1920)])]\<rparr>)
      = Some ([JNum 0, JNum 0, JNum 0],
              [[JNum 1, JNum 0, JNum 0], [JNum 0, JNum 1, JNum 0], [JNum 0, JNum 0, JNum 1]])
   \<and> get_camera_transform (Some (\<lambda>m. Inl (ValueError ''inhomogeneous'')))
        ((FSpyParser_init ''scene.fspy'')
        \<lparr>state_data := JObj [(''cameraParameters'', JObj [(''cameraTransform'',
            JObj [(''rows'', JArr [JArr [JNum 0, JNum 1, JNum 0, JNum 5],
                                   JArr [JNum (- 1), JNum 0, JNum 0, JNum 6],
                                   JArr [JNum 0, JNum 0, JNum 1, JNum 7],
                                   JArr [JNum 0, JNum 0, JNum 0, JNum 1]])])])]\<rparr>)
      = Some ([JNum 5, JNum 6, JNum 7],
              [[JNum 0, JNum 1, JNum 0], [JNum (- 1), JNum 0, JNum 0], [JNum 0, JNum 0, JNum 1]])
   \<and> get_camera_transform (Some (\<lambda>m. Inl (ValueError ''inhomogeneous'')))
        ((FSpyParser_init ''scene.fspy'')
        \<lparr>state_data := JObj [(''cameraParameters'', JObj [(''cameraTransform'',
            JObj [(''rows'', JArr [JArr [JArr [], JNum 1, JNum 0, JNum 5],
                                   JArr [JNum (- 1), JNum 0, JNum 0, JNum 6],
                                   JArr [JNum 0, JNum 0, JNum 1, JNum 7]])])])]\<rparr>)
      = None
   \<and> get_camera_transform None ((FSpyParser_init ''scene.fspy'')
        \<lparr>state_data := JObj [(''cameraParameters'', JObj [(''cameraTransform'',
            JObj [(''rows'', JArr [JArr [JNum 1, JNum 0, JNum 0],
                                   JArr [JNum 0, JNum 1, JNum 0],
                                   JArr [JNum 0, JNum 0, JNum 1]])])])]\<rparr>)
      = None"
proof -
  let ?P = "\<lambda>s. (FSpyParser_init ''scene.fspy'')\<lparr>state_data := s\<rparr>"
  let ?np = "Some (\<lambda>m::json list list. Inl (ValueError ''inhomogeneous'') :: exn + json list list)"
  let ?rows = "JArr [JArr [JNum 0, JNum 1, JNum 0, JNum 5],
                     JArr [JNum (- 1), JNum 0, JNum 0, JNum 6],
                     JArr [JNum 0, JNum 0, JNum 1, JNum 7],
                     JArr [JNum 0, JNum 0, JNum 0, JNum 1]]"
  let ?ragged = "JArr [JArr [JArr [], JNum 1, JNum 0, JNum 5],
                       JArr [JNum (- 1), JNum 0, JNum 0, JNum 6],
                       JArr [JNum 0, JNum 0, JNum 1, JNum 7]]"
  let ?short = "JArr [JArr [JNum 1, JNum 0, JNum 0],
                      JArr [JNum 0, JNum 1, JNum 0],
                      JArr [JNum 0, JNum 0, JNum 1]]"
  have absent: "get_camera_transform None (?P (JObj [])) = None"
    using get_camera_transform_amended[where self = "?P (JObj [])" and st = "[]"
        and numpy = None, THEN conjunct1]
    by simp
  have default: "get_camera_transform None
       (?P (JObj [(''cameraParameters'', JObj [(''imageWidth'', JNum 1920)])]))
      = Some ([JNum 0, JNum 0, JNum 0],
              [[JNum 1, JNum 0, JNum 0], [JNum 0, JNum 1, JNum 0], [JNum 0, JNum 0, JNum 1]])"
    using get_camera_transform_amended[where
        self = "?P (JObj [(''cameraParameters'', JObj [(''imageWidth'', JNum 1920)])])"
        and st = "[(''cameraParameters'', JObj [(''imageWidth'', JNum 1920)])]"
        and numpy = None,
        THEN conjunct2, THEN conjunct1, rule_format, of "[(''imageWidth'', JNum 1920)]"]
    by simp
  have given: "get_camera_transform ?np
       (?P (JObj [(''cameraParameters'', JObj [(''cameraTransform'', JObj [(''rows'', ?rows)])])]))
      = Some ([JNum 5, JNum 6, JNum 7],
              [[JNum 0, JNum 1, JNum 0], [JNum (- 1), JNum 0, JNum 0], [JNum 0, JNum 0, JNum 1]])"
    using get_camera_transform_amended[where
        self = "?P (JObj [(''cameraParameters'', JObj [(''cameraTransform'',
                  JObj [(''rows'', ?rows)])])])"
        and st = "[(''cameraParameters'', JObj [(''cameraTransform'', JObj [(''rows'', ?rows)])])]"
        and numpy = ?np,
        THEN conjunct2, THEN conjunct2, THEN conjunct1, rule_format,
        of "[(''cameraTransform'', JObj [(''rows'', ?rows)])]" "[(''rows'', ?rows)]"
          "[JNum 0, JNum 1, JNum 0, JNum 5]" "[JNum (- 1), JNum 0, JNum 0, JNum 6]"
          "[JNum 0, JNum 0, JNum 1, JNum 7]" "[JArr [JNum 0, JNum 0, JNum 0, JNum 1]]"]
    by (simp add: all_numbers_def)
  have raises: "get_camera_transform ?np
       (?P (JObj [(''cameraParameters'', JObj [(''cameraTransform'', JObj [(''rows'', ?ragged)])])]))
      = None"
    using get_camera_transform_amended[where
        self = "?P (JObj [(''cameraParameters'', JObj [(''cameraTransform'',
                  JObj [(''rows'', ?ragged)])])])"
        and st = "[(''cameraParameters'', JObj [(''cameraTransform'', JObj [(''rows'', ?ragged)])])]"
        and numpy = ?np,
        THEN conjunct2, THEN conjunct2, THEN conjunct2, THEN conjunct1, rule_format,
        of "[(''cameraTransform'', JObj [(''rows'', ?ragged)])]" "[(''rows'', ?ragged)]"
          "[JArr [], JNum 1, JNum 0, JNum 5]" "[JNum (- 1), JNum 0, JNum 0, JNum 6]"
          "[JNum 0, JNum 0, JNum 1, JNum 7]" "[]"
          "\<lambda>m. Inl (ValueError ''inhomogeneous'')" "ValueError ''inhomogeneous''"]
    by (simp add: all_numbers_def)
  have short: "get_camera_transform None
       (?P (JObj [(''cameraParameters'', JObj [(''cameraTransform'', JObj [(''rows'', ?short)])])]))
      = None"
  proof -
    have "\<exists>i<3. \<exists>r. [JArr [JNum 1, JNum 0, JNum 0], JArr [JNum 0, JNum 1, JNum 0],
              JArr [JNum 0, JNum 0, JNum 1]] ! i = JArr r \<and> length r < 4"
      by (intro exI[of _ 0] exI[of _ "[JNum 1, JNum 0, JNum 0]"]) simp
    then show ?thesis
      using get_camera_transform_amended[where
        self = "?P (JObj [(''cameraParameters'', JObj [(''cameraTransform'',
                  JObj [(''rows'', ?short)])])])"
        and st = "[(''cameraParameters'', JObj [(''cameraTransform'', JObj [(''rows'', ?short)])])]"
        and numpy = None,
        THEN conjunct2, THEN conjunct2, THEN conjunct2, THEN conjunct2, rule_format,
        of "[(''cameraTransform'', JObj [(''rows'', ?short)])]" "[(''rows'', ?short)]"
          "[JArr [JNum 1, JNum 0, JNum 0], JArr [JNum 0, JNum 1, JNum 0],
              JArr [JNum 0, JNum 0, JNum 1]]"]
      by simp
  qed
  show ?thesis
    using absent default given raises short by simp
qed

section \<open>Camera properties and camera information: lemmas\<close>

lemma bind_exn_Inr_iff: "bind_exn m f = Inr y \<longleftrightarrow> (\<exists>x. m = Inr x \<and> f x = Inr y)"
  by (cases m) (simp_all add: bind_exn_def)

text \<open>On a matrix of numbers the two versions of the decomposition agree.\<close>

lemma rotation_matrix_to_euler_py_numeric:
  "rotation_matrix_to_euler_py
     [[JNum a, JNum b, JNum c], [JNum d, JNum e, JNum f], [JNum g, JNum h, JNum i]]
   = Inr (rotation_matrix_to_euler [[a, b, c], [d, e, f], [g, h, i]])"
  by (simp add: rotation_matrix_to_euler_py_def rotation_matrix_to_euler_def singular_def
      bind_exn_simps Let_def)

lemma film_back_1920x1080:
  assumes "map_of ps ''imageWidth'' = Some (JNum 1920)"
    and "map_of ps ''imageHeight'' = Some (JNum 1080)"
  shows "film_back fs (JObj ps) =
     Inr (36 * mm_to_inch, 36 / (1920 / 1080) * mm_to_inch, 36 / (1920 / 1080))"
  using assms by (simp add: film_back_def bind_exn_simps py_div_def horiz_aperture_mm_def)

lemma focal_length_absent:
  assumes "map_of ps ''horizontalFieldOfView'' = None"
  shows "focal_length_from_fov (JObj ps) = Inr None"
  using assms by (simp add: focal_length_from_fov_def bind_exn_simps)

text \<open>Once the film back is computed the two apertures are set, whatever follows.\<close>

lemma import_camera_properties_after_film_back:
  assumes "ps \<noteq> []" and "film_back fs (JObj ps) = Inr (h, v, vmm)"
  shows "horizontalFilmAperture (snd (import_camera_properties fs (JObj ps) cam)) = h"
    and "verticalFilmAperture (snd (import_camera_properties fs (JObj ps) cam)) = v"
  using assms
  by (simp_all add: import_camera_properties_def Let_def
      split: sum.splits option.splits prod.splits)

text \<open>Without a field of view the focal length of the camera is not touched.\<close>

lemma import_camera_properties_no_fov:
  assumes "focal_length_from_fov params = Inr None"
  shows "focalLength (snd (import_camera_properties fs params cam)) = focalLength cam"
  using assms
  by (simp add: import_camera_properties_def Let_def
      split: sum.splits option.splits prod.splits)

text \<open>The offsets after the block are those of \<open>film_offset\<close>, or the camera's own.\<close>

lemma import_camera_properties_offsets:
  assumes "ps \<noteq> []" and "film_back fs (JObj ps) = Inr (h, v, vmm)"
    and "film_offset fs (JObj ps) vmm = Inr off"
  shows "horizontalFilmOffset (snd (import_camera_properties fs (JObj ps) cam)) =
           (case off of None \<Rightarrow> horizontalFilmOffset cam | Some (x, y) \<Rightarrow> x)"
    and "verticalFilmOffset (snd (import_camera_properties fs (JObj ps) cam)) =
           (case off of None \<Rightarrow> verticalFilmOffset cam | Some (x, y) \<Rightarrow> y)"
  using assms
  by (simp_all add: import_camera_properties_def Let_def
      split: sum.splits option.splits prod.splits)

lemma update_camera_info_no_fov:
  assumes "map_of ps ''horizontalFieldOfView'' = None"
    and "update_camera_info fs parser (JObj ps) td = Inr lines"
  shows "Info_focal_length 35 \<in> set lines"
  using assms(2) unfolding update_camera_info_def
  by (auto simp: bind_exn_Inr_iff assms(1))

lemma update_camera_info_principal_mapping:
  assumes "map_of ps ''principalPoint'' = Some (JObj kvs)"
    and "map_of kvs ''x'' = Some (JNum x)" and "map_of kvs ''y'' = Some (JNum y)"
    and "update_camera_info fs parser (JObj ps) td = Inr lines"
  shows "Info_principal_point x y \<in> set lines"
  using assms(4) unfolding update_camera_info_def
  by (auto simp: bind_exn_Inr_iff assms(1-3))

text \<open>
  C7: with \<open>imageWidth = 1920\<close>, \<open>imageHeight = 1080\<close> and no \<open>horizontalFieldOfView\<close>,
  \<open>import_camera\<close> sets the horizontal aperture to \<open>36 * 0.0393701\<close> (1.4173 to four
  places) and the vertical aperture to \<open>36 / (1920 / 1080) * 0.0393701\<close> (0.7972 to
  four places) and leaves the focal length of the camera as it is;
  \<open>update_camera_info\<close>, whenever it produces its text, shows the focal length 35.0,
  and it does produce it when there is no transform, no \<open>principalPoint\<close> and no
  \<open>calibrationSettingsBase\<close>.
\<close>

theorem intrinsics_1920x1080_without_fov:
  assumes "map_of ps ''imageWidth'' = Some (JNum 1920)"
    and "map_of ps ''imageHeight'' = Some (JNum 1080)"
    and "map_of ps ''horizontalFieldOfView'' = None"
  shows "horizontalFilmAperture (snd (import_camera_properties fs (JObj ps) cam))
           = 36 * (393701 / 10000000)
       \<and> \<bar>horizontalFilmAperture (snd (import_camera_properties fs (JObj ps) cam))
            - 14173 / 10000\<bar> < 5 / 100000
       \<and> verticalFilmAperture (snd (import_camera_properties fs (JObj ps) cam))
           = 36 / (1920 / 1080) * (393701 / 10000000)
       \<and> \<bar>verticalFilmAperture (snd (import_camera_properties fs (JObj ps) cam))
            - 7972 / 10000\<bar> < 5 / 100000
       \<and> focalLength (snd (import_camera_properties fs (JObj ps) cam)) = focalLength cam
       \<and> (\<forall>td lines. update_camera_info fs parser (JObj ps) td = Inr lines
             \<longrightarrow> Info_focal_length 35 \<in> set lines)
       \<and> (\<forall>st. map_of ps ''principalPoint'' = None \<and> state_data parser = JObj st
               \<and> map_of st ''calibrationSettingsBase'' = None
             \<longrightarrow> update_camera_info fs parser (JObj ps) None =
                   Inr [Info_file (filepath parser), Info_image_size 1920 1080,
                        Info_aspect_ratio (1920 / 1080), Info_focal_length 35,
                        Info_principal_point 0 0, Info_unit (JStr ''Meters'')])"
proof -
  have ne: "ps \<noteq> []" using assms(1) by auto
  note fb = film_back_1920x1080[OF assms(1,2), of fs]
  have h: "horizontalFilmAperture (snd (import_camera_properties fs (JObj ps) cam))
           = 36 * (393701 / 10000000)"
    using import_camera_properties_after_film_back(1)[OF ne fb, of cam]
    by (simp add: mm_to_inch_def)
  have v: "verticalFilmAperture (snd (import_camera_properties fs (JObj ps) cam))
           = 36 / (1920 / 1080) * (393701 / 10000000)"
    using import_camera_properties_after_film_back(2)[OF ne fb, of cam]
    by (simp add: mm_to_inch_def)
  have f: "focalLength (snd (import_camera_properties fs (JObj ps) cam)) = focalLength cam"
    by (rule import_camera_properties_no_fov[OF focal_length_absent[OF assms(3)]])
  have u: "\<forall>td lines. update_camera_info fs parser (JObj ps) td = Inr lines
             \<longrightarrow> Info_focal_length 35 \<in> set lines"
    using update_camera_info_no_fov[OF assms(3)] by blast
  have d: "\<forall>st. map_of ps ''principalPoint'' = None \<and> state_data parser = JObj st
               \<and> map_of st ''calibrationSettingsBase'' = None
             \<longrightarrow> update_camera_info fs parser (JObj ps) None =
                   Inr [Info_file (filepath parser), Info_image_size 1920 1080,
                        Info_aspect_ratio (1920 / 1080), Info_focal_length 35,
                        Info_principal_point 0 0, Info_unit (JStr ''Meters'')]"
    using assms
    by (simp add: update_camera_info_def bind_exn_simps py_div_def transform_lines_def
        py_int_def)
  have hb: "\<bar>36 * (393701 / 10000000) - 14173 / 10000\<bar> < (5 / 100000 :: real)" by simp
  have vb: "\<bar>36 / (1920 / 1080) * (393701 / 10000000) - 7972 / 10000\<bar> < (5 / 100000 :: real)"
    by simp
  show ?thesis
    unfolding h v using f u d hb vb by blast
qed

theorem intrinsics_1920x1080_without_fov_witness:
  "horizontalFilmAperture (snd (import_camera_properties (\<lambda>s. None)
      (JObj [(''imageWidth'', JNum 1920), (''imageHeight'', JNum 1080)]) example_camera))
     = 36 * (393701 / 10000000)
   \<and> verticalFilmAperture (snd (import_camera_properties (\<lambda>s. None)
      (JObj [(''imageWidth'', JNum 1920), (''imageHeight'', JNum 1080)]) example_camera))
     = 36 / (1920 / 1080) * (393701 / 10000000)
   \<and> focalLength (snd (import_camera_properties (\<lambda>s. None)
      (JObj [(''imageWidth'', JNum 1920), (''imageHeight'', JNum 1080)]) example_camera))
     = 35
   \<and> update_camera_info (\<lambda>s. None)
        ((FSpyParser_init ''scene.fspy'')\<lparr>state_data := JObj [(''cameraParameters'',
            JObj [(''imageWidth'', JNum 1920), (''imageHeight'', JNum 1080)])]\<rparr>)
        (JObj [(''imageWidth'', JNum 1920), (''imageHeight'', JNum 1080)]) None
     = Inr [Info_file ''scene.fspy'', Info_image_size 1920 1080,
            Info_aspect_ratio (1920 / 1080), Info_focal_length 35,
            Info_principal_point 0 0, Info_unit (JStr ''Meters'')]"
proof -
  let ?ps = "[(''imageWidth'', JNum 1920), (''imageHeight'', JNum 1080)]"
  let ?parser = "(FSpyParser_init ''scene.fspy'')\<lparr>state_data := JObj [(''cameraParameters'',
            JObj ?ps)]\<rparr>"
  have a: "map_of ?ps ''imageWidth'' = Some (JNum 1920)"
    "map_of ?ps ''imageHeight'' = Some (JNum 1080)"
    "map_of ?ps ''horizontalFieldOfView'' = None"
    by simp_all
  note t = intrinsics_1920x1080_without_fov[OF a, of "\<lambda>s. None" example_camera ?parser]
  have info: "update_camera_info (\<lambda>s. None) ?parser (JObj ?ps) None
     = Inr [Info_file ''scene.fspy'', Info_image_size 1920 1080,
            Info_aspect_ratio (1920 / 1080), Info_focal_length 35,
            Info_principal_point 0 0, Info_unit (JStr ''Meters'')]"
    using t[THEN conjunct2, THEN conjunct2, THEN conjunct2, THEN conjunct2, THEN conjunct2,
        THEN conjunct2, rule_format, of "[(''cameraParameters'', JObj ?ps)]"]
    by (simp add: FSpyParser_init_def)
  show ?thesis
    using t info by (simp add: example_camera_def)
qed

subsection \<open>The principal point\<close>

lemma film_offset_absent:
  assumes "map_of ps ''principalPoint'' = None"
  shows "film_offset fs (JObj ps) vmm = Inr (Some (0, 0))"
  using assms by (simp add: film_offset_def bind_exn_simps)

lemma film_offset_mapping:
  assumes "map_of ps ''principalPoint'' = Some (JObj kvs)"
  shows "film_offset fs (JObj ps) vmm = Inr None"
  using assms by (simp add: film_offset_def bind_exn_simps)

text \<open>
  C8, as stated, fails: with \<open>principalPoint\<close> the mapping \<open>{x: 0.1, y: 0.2}\<close> the
  guard of \<open>import_camera\<close> is false, no offset is computed, and the camera keeps the
  offsets it had (here 0), not \<open>0.1 * 36 * 0.0393701\<close>.
\<close>

theorem film_offset_mapping_counterexample:
  "film_offset (\<lambda>s. None)
      (JObj [(''principalPoint'', JObj [(''x'', JNum (1 / 10)), (''y'', JNum (1 / 5))])])
      (36 / (1920 / 1080)) = Inr None
   \<and> horizontalFilmOffset (snd (import_camera_properties (\<lambda>s. None)
      (JObj [(''principalPoint'', JObj [(''x'', JNum (1 / 10)), (''y'', JNum (1 / 5))])])
      example_camera)) = 0
   \<and> verticalFilmOffset (snd (import_camera_properties (\<lambda>s. None)
      (JObj [(''principalPoint'', JObj [(''x'', JNum (1 / 10)), (''y'', JNum (1 / 5))])])
      example_camera)) = 0
   \<and> 1 / 10 * horiz_aperture_mm * mm_to_inch \<noteq> 0"
  by (simp add: import_camera_properties_def film_back_def film_offset_def
      focal_length_from_fov_def bind_exn_simps py_div_def horiz_aperture_mm_def mm_to_inch_def
      example_camera_def)

lemma film_offset_converted:
  assumes "map_of ps ''principalPoint'' = Some (JArr [p0, p1])"
    and "py_float fs p0 = Inr a" and "py_float fs p1 = Inr b"
  shows "film_offset fs (JObj ps) vmm = Inr (Some (a * 36 * mm_to_inch, b * vmm * mm_to_inch))"
  using assms by (simp add: film_offset_def bind_exn_simps horiz_aperture_mm_def)

lemma film_offset_raises:
  assumes "map_of ps ''principalPoint'' = Some (JArr [p0, p1])"
    and "py_float fs p0 = Inl e \<or> (\<exists>a. py_float fs p0 = Inr a \<and> py_float fs p1 = Inl e)"
  shows "film_offset fs (JObj ps) vmm = Inl e"
  using assms by (auto simp: film_offset_def bind_exn_simps)

lemma film_offset_other:
  assumes "map_of ps ''principalPoint'' = Some v" and "\<forall>p0 p1. v \<noteq> JArr [p0, p1]"
  shows "film_offset fs (JObj ps) vmm = Inr None"
  using assms
  by (auto simp: film_offset_def bind_exn_simps split: json.splits list.splits)

text \<open>An exception of the film offset ends the block with the offsets as they were.\<close>

lemma import_camera_properties_offset_raises:
  assumes "ps \<noteq> []" and "film_back fs (JObj ps) = Inr (h, v, vmm)"
    and "film_offset fs (JObj ps) vmm = Inl e"
  shows "fst (import_camera_properties fs (JObj ps) cam) = Some e"
    and "horizontalFilmOffset (snd (import_camera_properties fs (JObj ps) cam))
          = horizontalFilmOffset cam"
    and "verticalFilmOffset (snd (import_camera_properties fs (JObj ps) cam))
          = verticalFilmOffset cam"
  using assms by (simp_all add: import_camera_properties_def Let_def)

text \<open>
  C8, amended: once the film back is computed, \<open>import_camera\<close> sets the film offsets
  to \<open>float(principalPoint[0]) * 36 * 0.0393701\<close> and \<open>float(principalPoint[1]) *
  vert_aperture_mm * 0.0393701\<close> exactly when \<open>principalPoint\<close> is a list of length 2
  whose two entries \<open>float\<close> converts; when \<open>float\<close> raises on an entry the exception
  ends the block and the offsets stay as they were; an absent \<open>principalPoint\<close> is the
  default \<open>[0, 0]\<close> and gives the offsets 0; for every other value of
  \<open>principalPoint\<close> (a mapping, a list of another length, anything else) no offset is
  computed and the camera keeps its offsets. The mapping form is read by
  \<open>update_camera_info\<close> only, which shows its \<open>x\<close> and \<open>y\<close>.
\<close>

theorem film_offset_amended:
  assumes "film_back fs (JObj ps) = Inr (h, v, vmm)" and "ps \<noteq> []"
  shows "(\<forall>p0 p1 a b. map_of ps ''principalPoint'' = Some (JArr [p0, p1])
              \<and> py_float fs p0 = Inr a \<and> py_float fs p1 = Inr b
            \<longrightarrow> horizontalFilmOffset (snd (import_camera_properties fs (JObj ps) cam))
                  = a * 36 * (393701 / 10000000)
                \<and> verticalFilmOffset (snd (import_camera_properties fs (JObj ps) cam))
                  = b * vmm * (393701 / 10000000))
       \<and> (\<forall>p0 p1 e. map_of ps ''principalPoint'' = Some (JArr [p0, p1])
              \<and> (py_float fs p0 = Inl e
                 \<or> (\<exists>a. py_float fs p0 = Inr a \<and> py_float fs p1 = Inl e))
            \<longrightarrow> fst (import_camera_properties fs (JObj ps) cam) = Some e
                \<and> horizontalFilmOffset (snd (import_camera_properties fs (JObj ps) cam))
                  = horizontalFilmOffset cam
                \<and> verticalFilmOffset (snd (import_camera_properties fs (JObj ps) cam))
                  = verticalFilmOffset cam)
       \<and> (map_of ps ''principalPoint'' = None
            \<longrightarrow> horizontalFilmOffset (snd (import_camera_properties fs (JObj ps) cam)) = 0
                \<and> verticalFilmOffset (snd (import_camera_properties fs (JObj ps) cam)) = 0)
       \<and> (\<forall>val. map_of ps ''principalPoint'' = Some val \<and> (\<forall>p0 p1. val \<noteq> JArr [p0, p1])
            \<longrightarrow> film_offset fs (JObj ps) vmm = Inr None
                \<and> horizontalFilmOffset (snd (import_camera_properties fs (JObj ps) cam))
                  = horizontalFilmOffset cam
                \<and> verticalFilmOffset (snd (import_camera_properties fs (JObj ps) cam))
                  = verticalFilmOffset cam)
       \<and> (\<forall>kvs x y td lines. map_of ps ''principalPoint'' = Some (JObj kvs)
              \<and> map_of kvs ''x'' = Some (JNum x) \<and> map_of kvs ''y'' = Some (JNum y)
              \<and> update_camera_info fs parser (JObj ps) td = Inr lines
            \<longrightarrow> Info_principal_point x y \<in> set lines)"
proof (intro conjI allI impI)
  fix p0 p1 a b
  assume "map_of ps ''principalPoint'' = Some (JArr [p0, p1])
              \<and> py_float fs p0 = Inr a \<and> py_float fs p1 = Inr b"
  then have off: "film_offset fs (JObj ps) vmm
      = Inr (Some (a * 36 * mm_to_inch, b * vmm * mm_to_inch))"
    using film_offset_converted[of ps p0 p1 fs a b vmm] by blast
  show "horizontalFilmOffset (snd (import_camera_properties fs (JObj ps) cam))
          = a * 36 * (393701 / 10000000)"
    using import_camera_properties_offsets(1)[OF assms(2,1) off, of cam]
    by (simp add: mm_to_inch_def)
  show "verticalFilmOffset (snd (import_camera_properties fs (JObj ps) cam))
          = b * vmm * (393701 / 10000000)"
    using import_camera_properties_offsets(2)[OF assms(2,1) off, of cam]
    by (simp add: mm_to_inch_def)
next
  fix p0 p1 e
  assume "map_of ps ''principalPoint'' = Some (JArr [p0, p1])
              \<and> (py_float fs p0 = Inl e
                 \<or> (\<exists>a. py_float fs p0 = Inr a \<and> py_float fs p1 = Inl e))"
  then have off: "film_offset fs (JObj ps) vmm = Inl e"
    using film_offset_raises[of ps p0 p1 fs e vmm] by blast
  show "fst (import_camera_properties fs (JObj ps) cam) = Some e"
    by (rule import_camera_properties_offset_raises(1)[OF assms(2,1) off])
  show "horizontalFilmOffset (snd (import_camera_properties fs (JObj ps) cam))
          = horizontalFilmOffset cam"
    by (rule import_camera_properties_offset_raises(2)[OF assms(2,1) off])
  show "verticalFilmOffset (snd (import_camera_properties fs (JObj ps) cam))
          = verticalFilmOffset cam"
    by (rule import_camera_properties_offset_raises(3)[OF assms(2,1) off])
next
  assume "map_of ps ''principalPoint'' = None"
  note off = film_offset_absent[OF this, of fs vmm]
  show "horizontalFilmOffset (snd (import_camera_properties fs (JObj ps) cam)) = 0"
    using import_camera_properties_offsets(1)[OF assms(2,1) off, of cam] by simp
  show "verticalFilmOffset (snd (import_camera_properties fs (JObj ps) cam)) = 0"
    using import_camera_properties_offsets(2)[OF assms(2,1) off, of cam] by simp
next
  fix val
  assume "map_of ps ''principalPoint'' = Some val \<and> (\<forall>p0 p1. val \<noteq> JArr [p0, p1])"
  then have off: "film_offset fs (JObj ps) vmm = Inr None"
    using film_offset_other[of ps val fs vmm] by blast
  show "film_offset fs (JObj ps) vmm = Inr None" by (rule off)
  show "horizontalFilmOffset (snd (import_camera_properties fs (JObj ps) cam))
          = horizontalFilmOffset cam"
    using import_camera_properties_offsets(1)[OF assms(2,1) off, of cam] by simp
  show "verticalFilmOffset (snd (import_camera_properties fs (JObj ps) cam))
          = verticalFilmOffset cam"
    using import_camera_properties_offsets(2)[OF assms(2,1) off, of cam] by simp
next
  fix kvs x y td lines
  assume "map_of ps ''principalPoint'' = Some (JObj kvs)
              \<and> map_of kvs ''x'' = Some (JNum x) \<and> map_of kvs ''y'' = Some (JNum y)
              \<and> update_camera_info fs parser (JObj ps) td = Inr lines"
  then show "Info_principal_point x y \<in> set lines"
    using update_camera_info_principal_mapping[of ps kvs x y fs parser td lines] by blast
qed

theorem film_offset_amended_witness:
  "horizontalFilmOffset (snd (import_camera_properties (\<lambda>s. if s = ''0.5'' then Some (1 / 2) else None)
      (JObj [(''principalPoint'', JArr [JStr ''0.5'', JBool True])]) example_camera))
     = 1 / 2 * 36 * (393701 / 10000000)
   \<and> verticalFilmOffset (snd (import_camera_properties (\<lambda>s. if s = ''0.5'' then Some (1 / 2) else None)
      (JObj [(''principalPoint'', JArr [JStr ''0.5'', JBool True])]) example_camera))
     = 1 * (36 / (1920 / 1080)) * (393701 / 10000000)
   \<and> fst (import_camera_properties (\<lambda>s. None)
      (JObj [(''principalPoint'', JArr [JNull, JNum (1 / 10)])]) example_camera) = Some TypeError
   \<and> horizontalFilmOffset (snd (import_camera_properties (\<lambda>s. None)
      (JObj [(''imageWidth'', JNum 1920)]) (example_camera\<lparr>horizontalFilmOffset := 1\<rparr>))) = 0
   \<and> horizontalFilmOffset (snd (import_camera_properties (\<lambda>s. None)
      (JObj [(''principalPoint'', JObj [(''x'', JNum (1 / 10)), (''y'', JNum (1 / 5))])])
      (example_camera\<lparr>horizontalFilmOffset := 1\<rparr>))) = 1
   \<and> horizontalFilmOffset (snd (import_camera_properties (\<lambda>s. None)
      (JObj [(''principalPoint'', JArr [JNum (1 / 10), JNum (1 / 5), JNum 0])])
      (example_camera\<lparr>horizontalFilmOffset := 1\<rparr>))) = 1"
proof -
  let ?fs = "\<lambda>s::string. None :: real option"
  let ?fs' = "\<lambda>s::string. if s = ''0.5'' then Some (1 / 2 :: real) else None"
  let ?conv = "[(''principalPoint'', JArr [JStr ''0.5'', JBool True])]"
  let ?bad = "[(''principalPoint'', JArr [JNull, JNum (1 / 10)])]"
  let ?none = "[(''imageWidth'', JNum 1920)]"
  let ?map = "[(''principalPoint'', JObj [(''x'', JNum (1 / 10)), (''y'', JNum (1 / 5))])]"
  let ?three = "[(''principalPoint'', JArr [JNum (1 / 10), JNum (1 / 5), JNum 0])]"
  let ?cam = "example_camera\<lparr>horizontalFilmOffset := 1\<rparr>"
  have fb: "\<And>f ps. map_of ps ''imageHeight'' = None \<Longrightarrow> map_of ps ''imageWidth'' = None
      \<or> map_of ps ''imageWidth'' = Some (JNum 1920) \<Longrightarrow>
      film_back f (JObj ps) = Inr (36 * mm_to_inch, 36 / (1920 / 1080) * mm_to_inch,
        36 / (1920 / 1080))"
    by (auto simp: film_back_def bind_exn_simps py_div_def horiz_aperture_mm_def)
  have c: "horizontalFilmOffset (snd (import_camera_properties ?fs' (JObj ?conv) example_camera))
       = 1 / 2 * 36 * (393701 / 10000000)
     \<and> verticalFilmOffset (snd (import_camera_properties ?fs' (JObj ?conv) example_camera))
       = 1 * (36 / (1920 / 1080)) * (393701 / 10000000)"
    using film_offset_amended[OF fb[of ?conv ?fs'], of example_camera, THEN conjunct1, rule_format,
        of "JStr ''0.5''" "JBool True" "1 / 2" 1]
    by simp
  have b: "fst (import_camera_properties ?fs (JObj ?bad) example_camera) = Some TypeError"
    using film_offset_amended[OF fb[of ?bad ?fs], of example_camera, THEN conjunct2,
        THEN conjunct1, rule_format, of JNull "JNum (1 / 10)" TypeError]
    by simp
  have n: "horizontalFilmOffset (snd (import_camera_properties ?fs (JObj ?none) ?cam)) = 0"
    using film_offset_amended[OF fb[of ?none ?fs], of ?cam,
        THEN conjunct2, THEN conjunct2, THEN conjunct1]
    by simp
  have m: "horizontalFilmOffset (snd (import_camera_properties ?fs (JObj ?map) ?cam)) = 1"
    using film_offset_amended[OF fb[of ?map ?fs], of ?cam,
        THEN conjunct2, THEN conjunct2, THEN conjunct2, THEN conjunct1, rule_format,
        of "JObj [(''x'', JNum (1 / 10)), (''y'', JNum (1 / 5))]"]
    by simp
  have t: "horizontalFilmOffset (snd (import_camera_properties ?fs (JObj ?three) ?cam)) = 1"
    using film_offset_amended[OF fb[of ?three ?fs], of ?cam,
        THEN conjunct2, THEN conjunct2, THEN conjunct2, THEN conjunct1, rule_format,
        of "JArr [JNum (1 / 10), JNum (1 / 5), JNum 0]"]
    by simp
  show ?thesis using c b n m t by blast
qed

subsection \<open>The default image height\<close>

text \<open>
  C9: with \<open>imageHeight\<close> absent, \<open>update_camera_info\<close>, called as \<open>browse_file\<close>
  calls it, takes the height 1920 (it shows 1920 x 1920 and the aspect ratio 1), where
  the film back of \<open>import_camera\<close> takes 1080 for the same parameters.
\<close>

theorem update_camera_info_default_height:
  "update_camera_info (\<lambda>s. None)
      ((FSpyParser_init ''scene.fspy'')\<lparr>state_data :=
          JObj [(''cameraParameters'', JObj [(''imageWidth'', JNum 1920)])]\<rparr>)
      (JObj [(''imageWidth'', JNum 1920)])
      (get_camera_transform numpy ((FSpyParser_init ''scene.fspy'')\<lparr>state_data :=
          JObj [(''cameraParameters'', JObj [(''imageWidth'', JNum 1920)])]\<rparr>))
     = Inr [Info_file ''scene.fspy'', Info_image_size 1920 1920, Info_aspect_ratio 1,
            Info_camera_position 0 0 0, Info_camera_rotation 0 0 0,
            Info_focal_length 35, Info_principal_point 0 0, Info_unit (JStr ''Meters'')]
   \<and> film_back (\<lambda>s. None) (JObj [(''imageWidth'', JNum 1920)])
     = Inr (36 * mm_to_inch, 36 / (1920 / 1080) * mm_to_inch, 36 / (1920 / 1080))"
proof -
  have t: "get_camera_transform numpy
      ((FSpyParser_init ''scene.fspy'')\<lparr>state_data :=
          JObj [(''cameraParameters'', JObj [(''imageWidth'', JNum 1920)])]\<rparr>)
    = Some ([JNum 0, JNum 0, JNum 0],
           [[JNum 1, JNum 0, JNum 0], [JNum 0, JNum 1, JNum 0], [JNum 0, JNum 0, JNum 1]])"
    by (simp add: get_camera_transform_def get_camera_transform_try_def bind_exn_simps
        rows_default)
  show ?thesis
    unfolding t
    by (simp add: update_camera_info_def film_back_def bind_exn_simps py_div_def
        transform_lines_def py_int_def FSpyParser_init_def horiz_aperture_mm_def
        rotation_matrix_to_euler_py_def atan2_def)
qed

end
